theory Spec2Isabelle
  imports Complex_Main
begin

section \<open>Conventions of the embedding\<close>

text \<open>
  The development follows the Python sources under \<^verbatim>\<open>backend/src\<close>.
  \<^item> A Python \<^verbatim>\<open>float\<close> is a \<^typ>\<open>real\<close>. Comparisons of two values are the same on
    both sides; the sums and differences the sources form (the penalty, the distance of a
    value from a threshold, the score range) are taken exactly, without the rounding of
    binary floating point. For the constants of the sources (0.05, 0.1, 0.15, 0.3, 0.7)
    the rounding changes none of the verdicts examined below.
  \<^item> A raised \<^verbatim>\<open>Exception\<close> is the text \<^verbatim>\<open>str(e)\<close>, carried on the left of a sum.
  \<^item> Wall-clock readings (\<^verbatim>\<open>datetime.utcnow()\<close>) and random identifiers (\<^verbatim>\<open>uuid4()\<close>)
    are arguments of the functions that read them; the timestamp prefix that
    \<^verbatim>\<open>log_reasoning\<close> puts before each step is left out of the step text.
  \<^item> Text produced by Python's formatting of numbers, lists and enumeration members is
    supplied by a record of rendering functions, since its exact characters play no
    part in any decision the code takes.
\<close>

text \<open>
  Modelled from the spec: \<^verbatim>\<open>PipelineStage\<close> of schemas/messages.py, which is not among
  the sources. The members are the ordered stages and the three terminal states of the
  pipeline state machine; the member for the failed state is written \<open>STAGE_FAILED\<close>
  to keep it apart from the agent status of the same name.
\<close>

datatype PipelineStage =
    INITIALIZED | JD_ANALYSIS | RESUME_PARSING | MATCHING | SHORTLISTING
  | TEST_GENERATION | TEST_EVALUATION | RANKING | BIAS_AUDIT
  | COMPLETED | STAGE_FAILED | AWAITING_HUMAN_REVIEW

record Render =
  fmt_2f :: "real \<Rightarrow> string"
  fmt_pct :: "real \<Rightarrow> string"
  str_real :: "real \<Rightarrow> string"
  str_int :: "nat \<Rightarrow> string"
  str_list :: "string list \<Rightarrow> string"
  stage_value :: "PipelineStage \<Rightarrow> string"
  stage_str :: "PipelineStage \<Rightarrow> string"

text \<open>\<^verbatim>\<open>needle in haystack\<close> on strings: the needle occurs as a contiguous run.\<close>

fun starts_with :: "string \<Rightarrow> string \<Rightarrow> bool" where
  "starts_with [] hay = True"
| "starts_with (c # cs) [] = False"
| "starts_with (c # cs) (h # hs) = (c = h \<and> starts_with cs hs)"

fun str_in :: "string \<Rightarrow> string \<Rightarrow> bool" where
  "str_in needle [] = (needle = [])"
| "str_in needle (h # hs) = (starts_with needle (h # hs) \<or> str_in needle hs)"

text \<open>\<^verbatim>\<open>str.lower()\<close> on the ASCII letters; other characters are kept.\<close>

definition lower_char :: "char \<Rightarrow> char" where
  "lower_char c =
     (if 65 \<le> (of_char c :: nat) \<and> (of_char c :: nat) \<le> 90
      then char_of ((of_char c :: nat) + 32) else c)"

definition lower :: "string \<Rightarrow> string" where
  "lower text = map lower_char text"

section \<open>agents/base.py\<close>

datatype AgentStatus = PENDING | RUNNING | SUCCESS | FAILED | BLOCKED

record 'o AgentResponse =
  agent_id :: string
  agent_type :: string
  status :: AgentStatus
  data :: "'o option"
  confidence :: real
  explanation :: string
  audit_trail :: "string list"
  duration_ms :: real
  errors :: "string list"
  warnings :: "string list"
  requires_human_review :: bool

text \<open>
  An agent object: its identity, the value of its \<^verbatim>\<open>required_confidence_threshold\<close>
  property and its \<^verbatim>\<open>_process\<close> method. A call of \<^verbatim>\<open>_process\<close> yields the reasoning
  steps it logged through \<^verbatim>\<open>log_reasoning\<close> and then either raises (\<open>Inl\<close> of the
  exception text) or returns the triple (output, confidence, explanation).
\<close>

type_synonym ('i, 'o) process_method =
  "'i \<Rightarrow> string list \<times> (string + ('o \<times> real \<times> string))"

record ('i, 'o) BaseAgent =
  self_agent_id :: string
  self_agent_type :: string
  required_confidence_threshold :: real
  process :: "('i, 'o) process_method"

definition default_confidence_threshold :: real where
  "default_confidence_threshold = 0.7"

definition log_reasoning :: "string list \<Rightarrow> string \<Rightarrow> string list" where
  "log_reasoning audit_log step = audit_log @ [step]"

definition run :: "Render \<Rightarrow> ('i, 'o) BaseAgent \<Rightarrow> real \<Rightarrow> 'i \<Rightarrow> 'o AgentResponse" where
  "run R self duration input_data =
     (let audit_log0 = log_reasoning [] (''Starting '' @ self_agent_type self @ '' with input'')
      in case process self input_data of
           (steps, Inr (output_data, conf, expl)) \<Rightarrow>
             (let audit_log1 = audit_log0 @ steps;
                  needs_review = (conf < required_confidence_threshold self);
                  audit_log2 =
                    (if needs_review
                     then log_reasoning audit_log1
                            (''Confidence '' @ fmt_2f R conf @ '' below threshold ''
                               @ fmt_2f R (required_confidence_threshold self)
                               @ '' - flagging for human review'')
                     else audit_log1);
                  audit_log3 = log_reasoning audit_log2
                    (''Completed successfully in '' @ fmt_2f R duration @ ''ms'')
              in \<lparr> agent_id = self_agent_id self,
                   agent_type = self_agent_type self,
                   status = SUCCESS,
                   data = Some output_data,
                   confidence = conf,
                   explanation = expl,
                   audit_trail = audit_log3,
                   duration_ms = duration,
                   errors = [],
                   warnings = [],
                   requires_human_review = needs_review \<rparr>)
         | (steps, Inl e) \<Rightarrow>
             (let audit_log1 = audit_log0 @ steps;
                  audit_log2 = log_reasoning audit_log1 (''Failed with error: '' @ e)
              in \<lparr> agent_id = self_agent_id self,
                   agent_type = self_agent_type self,
                   status = FAILED,
                   data = None,
                   confidence = 0.0,
                   explanation = ''Agent failed: '' @ e,
                   audit_trail = audit_log2,
                   duration_ms = duration,
                   errors = [e],
                   warnings = [],
                   requires_human_review = True \<rparr>))"

section \<open>agents/resume_parser.py\<close>

text \<open>
  The input dictionary, read with \<^verbatim>\<open>.get(key, "")\<close>: a missing key is the empty string.
\<close>

record resume_input =
  ri_candidate_id :: string
  ri_resume_text :: string
  ri_resume_format :: string

text \<open>
  \<^verbatim>\<open>ParsedResume\<close> of schemas/candidates.py, with the fields the parser sets. The entries
  of the three extracted lists are never inspected by the code modelled here.
\<close>

record ParsedResume =
  pr_candidate_id :: string
  parsing_confidence :: real
  professional_summary :: string
  skills :: "string list"
  experience :: "string list"
  education :: "string list"
  total_experience_months :: nat
  unique_skills_count :: nat
  resume_quality_score :: real
  parsing_warnings :: "string list"

definition ResumeParser_process :: "(resume_input, ParsedResume) process_method" where
  "ResumeParser_process input_data =
     (let log0 = [''Starting resume parsing''];
          candidate_id = ri_candidate_id input_data;
          resume_text = ri_resume_text input_data
      in if resume_text = []
         then (log0, Inl ''No resume text provided'')
         else
           (let log1 = log0 @ [''Processing resume for candidate '' @ take 8 candidate_id @ ''...''];
                parsed = \<lparr> pr_candidate_id = candidate_id,
                           parsing_confidence = 0.85,
                           professional_summary = ''[To be extracted by LLM]'',
                           skills = [],
                           experience = [],
                           education = [],
                           total_experience_months = 0,
                           unique_skills_count = 0,
                           resume_quality_score = 0.0,
                           parsing_warnings =
                             [''Mock implementation - actual parsing not yet implemented''] \<rparr>;
                conf = 0.85;
                expl = ''Parsed resume for candidate '' @ take 8 candidate_id @ ''. ''
                         @ ''Extracted structured data including skills, experience, and education. ''
                         @ ''Personal information has been anonymized.'';
                log2 = log1 @ [''Resume parsing completed'']
            in (log2, Inr (parsed, conf, expl))))"

definition ResumeParserAgent :: "string \<Rightarrow> (resume_input, ParsedResume) BaseAgent" where
  "ResumeParserAgent aid =
     \<lparr> self_agent_id = aid,
       self_agent_type = ''ResumeParserAgent'',
       required_confidence_threshold = 0.6,
       process = ResumeParser_process \<rparr>"

section \<open>agents/jd_analyzer.py\<close>

text \<open>
  schemas/job.py is not among the sources. A job is modelled by the fields the
  orchestrator and the analyzer read; the dictionary that \<^verbatim>\<open>to_dict\<close> snapshots into the
  pipeline state and the object rebuilt from it are this same record, and
  \<open>shortlist_threshold\<close> is None when the dictionary has no such key.
\<close>

record JobDescription =
  jd_job_id :: string
  title :: string
  raw_description :: string
  shortlist_threshold :: "real option"

text \<open>\<^verbatim>\<open>ParsedJD\<close>, with the fields the analyzer's constructor call sets.\<close>

record ParsedJD =
  pj_job_id :: string
  pj_parsing_confidence :: real
  job_title_normalized :: string
  seniority_level :: string
  job_function :: string
  pj_skills :: "string list"
  minimum_years :: nat
  preferred_years :: nat
  minimum_degree :: string
  key_responsibilities :: "string list"
  technical_topics :: "string list"
  difficulty_level :: string
  jd_quality_score :: real
  potential_bias_flags :: "string list"
  pj_parsing_warnings :: "string list"

definition gendered_terms :: "string list" where
  "gendered_terms = [''rockstar'', ''ninja'', ''guru'', ''manpower'', ''manning'']"

definition age_terms :: "string list" where
  "age_terms = [''young'', ''energetic'', ''digital native'', ''recent graduate only'']"

definition check_for_bias :: "string \<Rightarrow> string list" where
  "check_for_bias text =
     (let text_lower = lower text
      in map (\<lambda>term. ''Potentially gendered term: '' @ [CHR 0x27] @ term @ [CHR 0x27])
           (filter (\<lambda>term. str_in term text_lower) gendered_terms)
       @ map (\<lambda>term. ''Potentially age-biased term: '' @ [CHR 0x27] @ term @ [CHR 0x27])
           (filter (\<lambda>term. str_in term text_lower) age_terms))"

definition JDAnalyzer_process :: "Render \<Rightarrow> (JobDescription, ParsedJD) process_method" where
  "JDAnalyzer_process R input_data =
     (let log0 = [''Starting JD analysis'', ''Analyzing job: '' @ title input_data];
          bias_flags = check_for_bias (raw_description input_data);
          log1 = (if bias_flags \<noteq> []
                  then log0 @ [''Potential bias detected: '' @ str_list R bias_flags]
                  else log0);
          parsed = \<lparr> pj_job_id = jd_job_id input_data,
                     pj_parsing_confidence = 0.9,
                     job_title_normalized = title input_data,
                     seniority_level = ''mid'',
                     job_function = ''engineering'',
                     pj_skills = [],
                     minimum_years = 3,
                     preferred_years = 5,
                     minimum_degree = ''bachelors'',
                     key_responsibilities = [],
                     technical_topics = [],
                     difficulty_level = ''intermediate'',
                     jd_quality_score = 0.8,
                     potential_bias_flags = bias_flags,
                     pj_parsing_warnings =
                       [''Mock implementation - actual parsing not yet implemented''] \<rparr>;
          conf = 0.9;
          expl = ''Analyzed job description for '' @ [CHR 0x27] @ title input_data @ [CHR 0x27]
                   @ ''. '' @ ''Extracted '' @ str_int R (length (pj_skills parsed))
                   @ '' skill requirements, '' @ ''experience requirements (''
                   @ str_int R (minimum_years parsed) @ ''+ years), ''
                   @ ''and education requirements ('' @ minimum_degree parsed @ ''). ''
                   @ ''Identified '' @ str_int R (length bias_flags)
                   @ '' potential bias concerns.'';
          log2 = log1 @ [''JD analysis completed'']
      in (log2, Inr (parsed, conf, expl)))"

definition JDAnalyzerAgent :: "Render \<Rightarrow> string \<Rightarrow> (JobDescription, ParsedJD) BaseAgent" where
  "JDAnalyzerAgent R aid =
     \<lparr> self_agent_id = aid,
       self_agent_type = ''JDAnalyzerAgent'',
       required_confidence_threshold = default_confidence_threshold,
       process = JDAnalyzer_process R \<rparr>"

section \<open>agents/bias_auditor.py\<close>

text \<open>\<^verbatim>\<open>FinalRanking\<close> of schemas/candidates.py, with the fields the auditor reads.\<close>

record FinalRanking =
  fr_candidate_id :: string
  final_composite_score :: real
  ranking_explanation :: string

text \<open>
  A finding dictionary. \<^verbatim>\<open>affected_candidates\<close> is a label, the list of
  \<^verbatim>\<open>g.get("gate_id")\<close> (None for a gate without that key) or a list of candidate ids.
\<close>

datatype affected =
    AffectedLabel string
  | AffectedGates "string option list"
  | AffectedCandidates "string list"

record finding =
  category :: string
  severity :: string
  description :: string
  affected_candidates :: affected

record BiasAuditResult =
  audit_passed :: bool
  overall_fairness_score :: real
  findings :: "finding list"
  recommendations :: "string list"
  result_requires_human_review :: bool
  compliance_notes :: "string list"

text \<open>
  A decision gate as the pipeline state keeps it (a dictionary): \<open>gate_id\<close> and
  \<open>bias_flags\<close> are None when the key is missing, as \<^verbatim>\<open>g.get\<close> sees them.
\<close>

record gate_dict =
  gate_id :: "string option"
  gate_name :: string
  condition :: string
  threshold :: real
  passed :: bool
  gate_explanation :: string
  bias_flags :: "string list option"

text \<open>
  A candidate dictionary of the pipeline state: the keys of
  \<^verbatim>\<open>CandidateProfile.to_dict\<close> and the \<^verbatim>\<open>parsed_resume\<close> key that resume parsing adds.
  Dates are kept in their ISO text form.
\<close>

record CandidateProfile =
  candidate_id :: string
  anonymized_id :: string
  email_hash :: string
  resume_file_path :: string
  application_date :: string
  data_consent_given :: bool
  consent_timestamp :: "string option"

record candidate_dict = CandidateProfile +
  parsed_resume :: "ParsedResume option"

definition CandidateProfile_to_dict :: "CandidateProfile \<Rightarrow> candidate_dict" where
  "CandidateProfile_to_dict c =
     \<lparr> candidate_id = candidate_id c,
       anonymized_id = anonymized_id c,
       email_hash = email_hash c,
       resume_file_path = resume_file_path c,
       application_date = application_date c,
       data_consent_given = data_consent_given c,
       consent_timestamp = consent_timestamp c,
       parsed_resume = None \<rparr>"

text \<open>The payload of a recorded agent response, one alternative per output type.\<close>

datatype payload =
    PayloadJD ParsedJD
  | PayloadResume ParsedResume
  | PayloadAudit BiasAuditResult

text \<open>The dictionary written by the bias-audit stage of the orchestrator.\<close>

record bias_audit_dict =
  bad_audit_passed :: bool
  bad_fairness_score :: real
  bad_findings :: "finding list"

text \<open>
  Modelled from the spec: \<^verbatim>\<open>PipelineState\<close> of schemas/messages.py, which is not among
  the sources: the session record with the identifiers, the current stage, the job and
  candidate snapshots, the per-stage results and the append-only logs of agent outcomes,
  decision gates, errors and warnings. \<open>parsed_jd\<close> is None for the empty dictionary.
\<close>

record PipelineState =
  pipeline_id :: string
  job_id :: string
  current_stage :: PipelineStage
  job_description :: JobDescription
  candidates :: "candidate_dict list"
  parsed_jd :: "ParsedJD option"
  match_results :: "string list"
  shortlisted_candidates :: "string list"
  test_questions :: "string list"
  test_results :: "string list"
  final_rankings :: "FinalRanking list"
  bias_audit_results :: "bias_audit_dict option"
  decision_gates :: "gate_dict list"
  agent_responses :: "payload AgentResponse list"
  state_errors :: "string list"
  state_warnings :: "string list"

record BiasAuditInput =
  pipeline_state :: PipelineState
  rankings :: "FinalRanking list"

text \<open>
  The four audits of \<^verbatim>\<open>_process\<close>, each giving the findings, recommendations and
  reasoning steps it appends.
\<close>

definition audit_jd_language ::
    "Render \<Rightarrow> BiasAuditInput \<Rightarrow> finding list \<times> string list \<times> string list" where
  "audit_jd_language R input_data =
     (let jd_bias_flags =
            (case parsed_jd (pipeline_state input_data) of
               None \<Rightarrow> [] | Some d \<Rightarrow> potential_bias_flags d)
      in if jd_bias_flags \<noteq> []
         then ([\<lparr> category = ''jd_language_bias'',
                   severity = ''medium'',
                   description = ''Job description contains potentially biased language: ''
                                   @ str_list R jd_bias_flags,
                   affected_candidates = AffectedLabel ''all'' \<rparr>],
               [''Review and revise job description language''],
               [''JD bias flags found: '' @ str_list R jd_bias_flags])
         else ([], [], []))"

definition borderline_cases :: "Render \<Rightarrow> gate_dict list \<Rightarrow> gate_dict list" where
  "borderline_cases R gates =
     filter (\<lambda>g. str_in ''borderline''
                   (str_list R (case bias_flags g of None \<Rightarrow> [] | Some fl \<Rightarrow> fl))) gates"

definition audit_gate_consistency ::
    "Render \<Rightarrow> BiasAuditInput \<Rightarrow> finding list \<times> string list \<times> string list" where
  "audit_gate_consistency R input_data =
     (let gates = decision_gates (pipeline_state input_data);
          borderline = borderline_cases R gates
      in if real (length borderline) > real (length gates) * 0.3
         then ([\<lparr> category = ''threshold_calibration'',
                   severity = ''high'',
                   description = str_int R (length borderline)
                     @ '' borderline decisions detected. Threshold may need adjustment.'',
                   affected_candidates = AffectedGates (map gate_id borderline) \<rparr>],
               [''Review threshold settings and borderline decisions''],
               [''High borderline rate: '' @ str_int R (length borderline) @ ''/''
                  @ str_int R (length gates)])
         else ([], [], []))"

definition score_range_of :: "real list \<Rightarrow> real" where
  "score_range_of scores =
     (case scores of [] \<Rightarrow> 0 | x # xs \<Rightarrow> fold max xs x - fold min xs x)"

definition audit_score_distribution ::
    "Render \<Rightarrow> BiasAuditInput \<Rightarrow> finding list \<times> string list \<times> string list" where
  "audit_score_distribution R input_data =
     (if rankings input_data \<noteq> []
      then (let scores = map final_composite_score (rankings input_data);
                 avg_score = sum_list scores / real (length scores);
                 score_range = score_range_of scores
             in if score_range < 0.1 \<and> length scores > 5
                then ([\<lparr> category = ''score_clustering'',
                          severity = ''low'',
                          description = ''Scores are clustered in narrow range (''
                            @ fmt_2f R score_range @ ''). May indicate evaluation issues.'',
                          affected_candidates = AffectedLabel ''all_ranked'' \<rparr>],
                      [],
                      [''Score clustering detected: range '' @ fmt_2f R score_range])
                else ([], [], []))
      else ([], [], []))"

definition audit_explanation_quality ::
    "Render \<Rightarrow> BiasAuditInput \<Rightarrow> finding list \<times> string list \<times> string list" where
  "audit_explanation_quality R input_data =
     (let rankings_without_explanation =
            filter (\<lambda>r. ranking_explanation r = [] \<or> length (ranking_explanation r) < 20)
              (rankings input_data)
      in if rankings_without_explanation \<noteq> []
         then ([\<lparr> category = ''explanation_quality'',
                   severity = ''medium'',
                   description = str_int R (length rankings_without_explanation)
                     @ '' rankings lack adequate explanation.'',
                   affected_candidates =
                     AffectedCandidates (map fr_candidate_id rankings_without_explanation) \<rparr>],
               [''Ensure all decisions have clear, documented explanations''],
               [])
         else ([], [], []))"

definition severity_weight :: "string \<Rightarrow> real" where
  "severity_weight s =
     (if s = ''high'' then 0.3
      else if s = ''medium'' then 0.15
      else if s = ''low'' then 0.05
      else 0.1)"

definition count_severity :: "string \<Rightarrow> finding list \<Rightarrow> nat" where
  "count_severity s fs = length (filter (\<lambda>f. severity f = s) fs)"

definition BiasAuditor_process :: "Render \<Rightarrow> (BiasAuditInput, BiasAuditResult) process_method" where
  "BiasAuditor_process R input_data =
     (let a1 = audit_jd_language R input_data;
          a2 = audit_gate_consistency R input_data;
          a3 = audit_score_distribution R input_data;
          a4 = audit_explanation_quality R input_data;
          fs = fst a1 @ fst a2 @ fst a3 @ fst a4;
          recs = fst (snd a1) @ fst (snd a2) @ fst (snd a3) @ fst (snd a4);
          log0 = [''Starting bias audit''] @ snd (snd a1) @ snd (snd a2) @ snd (snd a3)
                   @ snd (snd a4);
          penalty = sum_list (map (\<lambda>f. severity_weight (severity f)) fs);
          fairness_score = max 0.0 (1.0 - penalty);
          has_high_severity = list_ex (\<lambda>f. severity f = ''high'') fs;
          passed_audit = (fairness_score \<ge> 0.7 \<and> \<not> has_high_severity);
          notes =
            [''Audit completed at pipeline stage: ''
               @ stage_value R (current_stage (pipeline_state input_data)),
             ''Total candidates processed: ''
               @ str_int R (length (candidates (pipeline_state input_data))),
             ''Total findings: '' @ str_int R (length fs) @ '' ''
               @ ''(High: '' @ str_int R (count_severity ''high'' fs) @ '', ''
               @ ''Medium: '' @ str_int R (count_severity ''medium'' fs) @ '', ''
               @ ''Low: '' @ str_int R (count_severity ''low'' fs) @ '')''];
          result = \<lparr> audit_passed = passed_audit,
                     overall_fairness_score = fairness_score,
                     findings = fs,
                     recommendations = recs,
                     result_requires_human_review = (\<not> passed_audit \<or> has_high_severity),
                     compliance_notes = notes \<rparr>;
          log1 = log0 @ [''Audit '' @ (if passed_audit then ''PASSED'' else ''FAILED'')
                           @ '' with fairness score '' @ fmt_2f R fairness_score];
          conf = 0.9;
          expl = ''Bias audit '' @ (if passed_audit then ''PASSED'' else ''REQUIRES REVIEW'')
                   @ ''. '' @ ''Fairness score: '' @ fmt_pct R fairness_score @ ''. ''
                   @ ''Found '' @ str_int R (length fs) @ '' issues. ''
                   @ str_int R (length recs) @ '' recommendations provided.''
      in (log1, Inr (result, conf, expl)))"

definition BiasAuditorAgent :: "Render \<Rightarrow> string \<Rightarrow> (BiasAuditInput, BiasAuditResult) BaseAgent" where
  "BiasAuditorAgent R aid =
     \<lparr> self_agent_id = aid,
       self_agent_type = ''BiasAuditorAgent'',
       required_confidence_threshold = 0.9,
       process = BiasAuditor_process R \<rparr>"

section \<open>core/logger.py\<close>

record 'd AuditEntry =
  entry_id :: string
  entry_timestamp :: string
  entry_event_type :: string
  entry_pipeline_id :: "string option"
  entry_job_id :: "string option"
  entry_candidate_id :: "string option"
  entry_agent_type :: "string option"
  entry_action :: string
  details :: 'd
  outcome :: "string option"
  entry_confidence :: "real option"
  requires_review :: bool

text \<open>
  The logger is its list of entries; the line appended to the log file repeats the entry
  and is not modelled. Each call of \<^verbatim>\<open>log\<close> draws a fresh identifier and a timestamp.
\<close>

definition log ::
    "string \<times> string \<Rightarrow> 'd AuditEntry list \<Rightarrow> string \<Rightarrow> string \<Rightarrow> 'd
       \<Rightarrow> string option \<Rightarrow> string option \<Rightarrow> string option \<Rightarrow> string option
       \<Rightarrow> string option \<Rightarrow> real option \<Rightarrow> bool \<Rightarrow> 'd AuditEntry \<times> 'd AuditEntry list" where
  "log fresh entries event_type act dets pid jid cid atype outc conf review =
     (let entry = \<lparr> entry_id = fst fresh,
                    entry_timestamp = snd fresh,
                    entry_event_type = event_type,
                    entry_pipeline_id = pid,
                    entry_job_id = jid,
                    entry_candidate_id = cid,
                    entry_agent_type = atype,
                    entry_action = act,
                    details = dets,
                    outcome = outc,
                    entry_confidence = conf,
                    requires_review = review \<rparr>
      in (entry, entries @ [entry]))"

definition log_decision_gate ::
    "string \<times> string \<Rightarrow> (string \<times> real) list AuditEntry list \<Rightarrow> string \<Rightarrow> bool \<Rightarrow> real \<Rightarrow> real
       \<Rightarrow> string option \<Rightarrow> string option \<Rightarrow> string option
       \<Rightarrow> (string \<times> real) list AuditEntry \<times> (string \<times> real) list AuditEntry list" where
  "log_decision_gate fresh entries name gate_passed gate_threshold actual_value pid jid cid =
     log fresh entries ''decision_gate'' (''gate_'' @ name)
       [(''threshold'', gate_threshold),
        (''actual_value'', actual_value),
        (''margin'', \<bar>actual_value - gate_threshold\<bar>)]
       pid jid cid None
       (Some (if gate_passed then ''passed'' else ''failed''))
       None
       (\<bar>actual_value - gate_threshold\<bar> < 0.1)"

section \<open>agents/orchestrator.py\<close>

datatype OrchestratorAction = CONTINUE | PAUSE | RETRY | ABORT | COMPLETE

record OrchestratorDecision =
  action :: OrchestratorAction
  next_stage :: "PipelineStage option"
  reason :: string
  requires_human_approval :: bool
  blocked_by :: "string list option"

definition decide :: "OrchestratorAction \<Rightarrow> PipelineStage option \<Rightarrow> string \<Rightarrow> OrchestratorDecision" where
  "decide a ns r =
     \<lparr> action = a, next_stage = ns, reason = r,
       requires_human_approval = False, blocked_by = None \<rparr>"

datatype pyval = PStr string | PInt nat | PNum real | PBool bool

record event =
  event_type :: string
  event_pipeline_id :: "string option"
  event_data :: "(string \<times> pyval) list"

text \<open>
  What the environment supplies during a run: the rendering of values as text, the
  duration each agent invocation measures (indexed by the number of events logged
  before it), and the fresh identifiers of a pipeline and of a decision gate.
\<close>

record Env =
  render :: Render
  elapsed_ms :: "nat \<Rightarrow> real"
  new_pipeline_id :: string
  new_gate_id :: "nat \<Rightarrow> string"

text \<open>
  The orchestrator object: of the agents it creates, the two its stage handlers invoke and
  the bias auditor; the pipeline state (None until \<^verbatim>\<open>create_pipeline\<close>); the callbacks
  registered with \<^verbatim>\<open>on_event\<close>, by event type (no entry is the empty list); and the audit
  log. A callback is called with the event and either returns (None) or raises (the text
  of its exception); what else a callback does lies outside the orchestrator.
\<close>

type_synonym callback = "event \<Rightarrow> string option"

record Orchestrator =
  jd_analyzer :: "(JobDescription, ParsedJD) BaseAgent"
  resume_parser :: "(resume_input, ParsedResume) BaseAgent"
  bias_auditor :: "(BiasAuditInput, BiasAuditResult) BaseAgent"
  state :: "PipelineState option"
  event_handlers :: "string \<Rightarrow> callback list"
  orch_audit_log :: "event list"

definition OrchestratorAgent :: "Render \<Rightarrow> string \<Rightarrow> string \<Rightarrow> string \<Rightarrow> Orchestrator" where
  "OrchestratorAgent R id1 id2 id3 =
     \<lparr> jd_analyzer = JDAnalyzerAgent R id1,
       resume_parser = ResumeParserAgent id2,
       bias_auditor = BiasAuditorAgent R id3,
       state = None,
       event_handlers = (\<lambda>etype. []),
       orch_audit_log = [] \<rparr>"

definition on_event :: "Orchestrator \<Rightarrow> string \<Rightarrow> callback \<Rightarrow> Orchestrator" where
  "on_event self etype handler =
     self\<lparr> event_handlers := (event_handlers self)(etype := event_handlers self etype @ [handler]) \<rparr>"

text \<open>
  \<^verbatim>\<open>_log_event\<close> appends the event to the audit log and then calls the callbacks registered
  for its type, in order and with no \<^verbatim>\<open>try\<close> around them: the first one that raises ends
  the call, and its exception leaves \<^verbatim>\<open>_log_event\<close> with the event already logged. A call
  that raises is \<open>Inl\<close> of the exception text and the orchestrator as the raise left it.
\<close>

fun dispatch :: "callback list \<Rightarrow> event \<Rightarrow> string option" where
  "dispatch [] ev = None"
| "dispatch (handler # rest) ev =
     (case handler ev of Some e \<Rightarrow> Some e | None \<Rightarrow> dispatch rest ev)"

definition make_event :: "Orchestrator \<Rightarrow> string \<Rightarrow> (string \<times> pyval) list \<Rightarrow> event" where
  "make_event self etype d =
     \<lparr> event_type = etype,
       event_pipeline_id = map_option pipeline_id (state self),
       event_data = d \<rparr>"

definition append_event :: "Orchestrator \<Rightarrow> string \<Rightarrow> (string \<times> pyval) list \<Rightarrow> Orchestrator" where
  "append_event self etype d =
     self\<lparr> orch_audit_log := orch_audit_log self @ [make_event self etype d] \<rparr>"

definition log_event ::
    "Orchestrator \<Rightarrow> string \<Rightarrow> (string \<times> pyval) list \<Rightarrow> (string \<times> Orchestrator) + Orchestrator" where
  "log_event self etype d =
     (let ev = make_event self etype d;
          self1 = append_event self etype d
      in case dispatch (event_handlers self etype) ev of
           None \<Rightarrow> Inr self1
         | Some e \<Rightarrow> Inl (e, self1))"

definition new_pipeline_state :: "Env \<Rightarrow> JobDescription \<Rightarrow> CandidateProfile list \<Rightarrow> PipelineState" where
  "new_pipeline_state E job cands =
     \<lparr> pipeline_id = new_pipeline_id E,
       job_id = jd_job_id job,
       current_stage = INITIALIZED,
       job_description = job,
       candidates = map CandidateProfile_to_dict cands,
       parsed_jd = None,
       match_results = [],
       shortlisted_candidates = [],
       test_questions = [],
       test_results = [],
       final_rankings = [],
       bias_audit_results = None,
       decision_gates = [],
       agent_responses = [],
       state_errors = [],
       state_warnings = [] \<rparr>"

definition create_pipeline ::
    "Env \<Rightarrow> Orchestrator \<Rightarrow> JobDescription \<Rightarrow> CandidateProfile list
       \<Rightarrow> (string \<times> Orchestrator) + (PipelineState \<times> Orchestrator)" where
  "create_pipeline E self job cands =
     (let st = new_pipeline_state E job cands
      in case log_event (self\<lparr> state := Some st \<rparr>) ''pipeline_created''
                [(''job_id'', PStr (jd_job_id job)),
                 (''candidate_count'', PInt (length cands))] of
           Inl raised \<Rightarrow> Inl raised
         | Inr self1 \<Rightarrow> Inr (st, self1))"

text \<open>
  Reading \<^verbatim>\<open>self.state.x\<close> raises AttributeError while the state is None (the text of
  the exception is shortened here); an assignment to a field of the state object is
  \<open>upd_state\<close>, used under \<open>with_state\<close>.
\<close>

type_synonym handler_result =
  "(string \<times> Orchestrator) + (OrchestratorDecision \<times> Orchestrator)"

definition none_attribute_error :: string where
  "none_attribute_error = ''AttributeError: NoneType object has no attribute''"

definition with_state :: "Orchestrator \<Rightarrow> (PipelineState \<Rightarrow> handler_result) \<Rightarrow> handler_result" where
  "with_state self f =
     (case state self of None \<Rightarrow> Inl (none_attribute_error, self) | Some st \<Rightarrow> f st)"

definition upd_state :: "(PipelineState \<Rightarrow> PipelineState) \<Rightarrow> Orchestrator \<Rightarrow> Orchestrator" where
  "upd_state f self = self\<lparr> state := map_option f (state self) \<rparr>"

definition AgentStatus_value :: "AgentStatus \<Rightarrow> string" where
  "AgentStatus_value s =
     (case s of PENDING \<Rightarrow> ''pending'' | RUNNING \<Rightarrow> ''running'' | SUCCESS \<Rightarrow> ''success''
      | FAILED \<Rightarrow> ''failed'' | BLOCKED \<Rightarrow> ''blocked'')"

definition response_to_dict :: "('o \<Rightarrow> payload) \<Rightarrow> 'o AgentResponse \<Rightarrow> payload AgentResponse" where
  "response_to_dict wrap r =
     \<lparr> agent_id = agent_id r,
       agent_type = agent_type r,
       status = status r,
       data = map_option wrap (data r),
       confidence = confidence r,
       explanation = explanation r,
       audit_trail = audit_trail r,
       duration_ms = duration_ms r,
       errors = errors r,
       warnings = warnings r,
       requires_human_review = requires_human_review r \<rparr>"

text \<open>
  Modelled from the spec: \<^verbatim>\<open>PipelineState.add_agent_response\<close> and
  \<^verbatim>\<open>PipelineState.add_decision_gate\<close>, which are not among the sources, append to the
  append-only logs \<open>agent_responses\<close> and \<open>decision_gates\<close>.
\<close>

definition add_agent_response :: "payload AgentResponse \<Rightarrow> PipelineState \<Rightarrow> PipelineState" where
  "add_agent_response r st = st\<lparr> agent_responses := agent_responses st @ [r] \<rparr>"

definition add_decision_gate :: "gate_dict \<Rightarrow> PipelineState \<Rightarrow> PipelineState" where
  "add_decision_gate g st = st\<lparr> decision_gates := decision_gates st @ [g] \<rparr>"

definition record_agent_response ::
    "Orchestrator \<Rightarrow> ('o \<Rightarrow> payload) \<Rightarrow> 'o AgentResponse
       \<Rightarrow> (string \<times> Orchestrator) + Orchestrator" where
  "record_agent_response self wrap response =
     (let self1 = upd_state (add_agent_response (response_to_dict wrap response)) self;
          self2 = (if warnings response \<noteq> []
                   then upd_state (\<lambda>st. st\<lparr> state_warnings :=
                                               state_warnings st @ warnings response \<rparr>) self1
                   else self1)
      in log_event self2 ''agent_response''
           [(''agent_type'', PStr (agent_type response)),
            (''status'', PStr (AgentStatus_value (status response))),
            (''confidence'', PNum (confidence response)),
            (''requires_review'', PBool (requires_human_review response))])"

definition run_jd_analysis :: "Env \<Rightarrow> Orchestrator \<Rightarrow> handler_result" where
  "run_jd_analysis E self =
     with_state self (\<lambda>st.
       let job = job_description st;
           response = run (render E) (jd_analyzer self)
                        (elapsed_ms E (length (orch_audit_log self))) job
       in case record_agent_response self PayloadJD response of
            Inl raised \<Rightarrow> Inl raised
          | Inr self1 \<Rightarrow>
              if status response = SUCCESS
              then Inr (decide CONTINUE (Some JD_ANALYSIS) ''JD analysis completed'',
                        upd_state (\<lambda>s. s\<lparr> parsed_jd := data response \<rparr>) self1)
              else Inr (decide ABORT None
                          (''JD analysis failed: '' @ str_list (render E) (errors response)),
                        self1))"

definition resume_input_of :: "candidate_dict \<Rightarrow> resume_input" where
  "resume_input_of candidate =
     \<lparr> ri_candidate_id = candidate_id candidate,
       ri_resume_text = ''[Mock resume text]'',
       ri_resume_format = ''txt'' \<rparr>"

fun parse_resumes ::
    "Env \<Rightarrow> candidate_dict list \<Rightarrow> Orchestrator \<Rightarrow> ParsedResume list
       \<Rightarrow> (string \<times> Orchestrator) + (Orchestrator \<times> ParsedResume list)" where
  "parse_resumes E [] self parsed_resumes = Inr (self, parsed_resumes)"
| "parse_resumes E (candidate # rest) self parsed_resumes =
     (let input_data = resume_input_of candidate;
          response = run (render E) (resume_parser self)
                       (elapsed_ms E (length (orch_audit_log self))) input_data
      in case record_agent_response self PayloadResume response of
           Inl raised \<Rightarrow> Inl raised
         | Inr self1 \<Rightarrow>
             parse_resumes E rest self1
               (case data response of
                  Some d \<Rightarrow> if status response = SUCCESS then parsed_resumes @ [d]
                            else parsed_resumes
                | None \<Rightarrow> parsed_resumes))"

definition run_resume_parsing :: "Env \<Rightarrow> Orchestrator \<Rightarrow> handler_result" where
  "run_resume_parsing E self =
     with_state self (\<lambda>st.
       case parse_resumes E (candidates st) self [] of
         Inl raised \<Rightarrow> Inl raised
       | Inr (self1, parsed_resumes) \<Rightarrow>
           (let self2 = upd_state
                          (\<lambda>s. s\<lparr> candidates :=
                                     map (\<lambda>(c, pr). c\<lparr> parsed_resume := Some pr \<rparr>)
                                       (zip (candidates s) parsed_resumes) \<rparr>) self1
            in Inr (decide CONTINUE (Some RESUME_PARSING)
                      (''Parsed '' @ str_int (render E) (length parsed_resumes) @ '' resumes''),
                    self2)))"

definition run_matching :: "Env \<Rightarrow> Orchestrator \<Rightarrow> handler_result" where
  "run_matching E self =
     with_state self (\<lambda>st.
       Inr (decide CONTINUE (Some MATCHING) ''Matching completed'',
            upd_state (\<lambda>s. s\<lparr> match_results := [] \<rparr>) self))"

definition shortlist_gate :: "Env \<Rightarrow> PipelineState \<Rightarrow> gate_dict" where
  "shortlist_gate E st =
     (let thr = (case shortlist_threshold (job_description st) of
                   None \<Rightarrow> 0.7 | Some t \<Rightarrow> t)
      in \<lparr> gate_id = Some (new_gate_id E (length (decision_gates st))),
           gate_name = ''shortlist_gate'',
           condition = ''Match score >= '' @ str_real (render E) thr,
           threshold = thr,
           passed = True,
           gate_explanation = ''Shortlisting decision gate passed'',
           bias_flags = Some [] \<rparr>)"

definition run_shortlisting :: "Env \<Rightarrow> Orchestrator \<Rightarrow> handler_result" where
  "run_shortlisting E self =
     with_state self (\<lambda>st.
       let gate = shortlist_gate E st
       in Inr (decide CONTINUE (Some SHORTLISTING) ''Shortlisting completed'',
               upd_state (add_decision_gate gate) self))"

definition run_test_generation :: "Env \<Rightarrow> Orchestrator \<Rightarrow> handler_result" where
  "run_test_generation E self =
     with_state self (\<lambda>st.
       Inr (decide CONTINUE (Some TEST_GENERATION) ''Test generation completed'',
            upd_state (\<lambda>s. s\<lparr> test_questions := [] \<rparr>) self))"

definition run_test_evaluation :: "Env \<Rightarrow> Orchestrator \<Rightarrow> handler_result" where
  "run_test_evaluation E self =
     with_state self (\<lambda>st.
       Inr (decide CONTINUE (Some TEST_EVALUATION) ''Test evaluation completed'',
            upd_state (\<lambda>s. s\<lparr> test_results := [] \<rparr>) self))"

definition run_ranking :: "Env \<Rightarrow> Orchestrator \<Rightarrow> handler_result" where
  "run_ranking E self =
     with_state self (\<lambda>st.
       Inr (decide CONTINUE (Some RANKING) ''Ranking completed'',
            upd_state (\<lambda>s. s\<lparr> final_rankings := [] \<rparr>) self))"

definition mock_bias_audit_results :: bias_audit_dict where
  "mock_bias_audit_results =
     \<lparr> bad_audit_passed = True, bad_fairness_score = 0.9, bad_findings = [] \<rparr>"

definition run_bias_audit :: "Env \<Rightarrow> Orchestrator \<Rightarrow> handler_result" where
  "run_bias_audit E self =
     with_state self (\<lambda>st.
       Inr (decide CONTINUE (Some BIAS_AUDIT) ''Bias audit completed'',
            upd_state (\<lambda>s. s\<lparr> bias_audit_results := Some mock_bias_audit_results \<rparr>) self))"

definition execute_current_stage :: "Env \<Rightarrow> Orchestrator \<Rightarrow> handler_result" where
  "execute_current_stage E self =
     with_state self (\<lambda>st.
       let stage = current_stage st
       in case log_event self ''stage_started''
                 [(''stage'', PStr (stage_value (render E) stage))] of
            Inl raised \<Rightarrow> Inl raised
          | Inr self1 \<Rightarrow>
              if stage = INITIALIZED then run_jd_analysis E self1
              else if stage = JD_ANALYSIS then run_resume_parsing E self1
              else if stage = RESUME_PARSING then run_matching E self1
              else if stage = MATCHING then run_shortlisting E self1
              else if stage = SHORTLISTING then run_test_generation E self1
              else if stage = TEST_GENERATION then run_test_evaluation E self1
              else if stage = TEST_EVALUATION then run_ranking E self1
              else if stage = RANKING then run_bias_audit E self1
              else if stage = BIAS_AUDIT
              then Inr (decide COMPLETE None ''Pipeline completed successfully'', self1)
              else Inr (decide ABORT None (''Unknown stage: '' @ stage_str (render E) stage),
                        self1))"

text \<open>
  The body of the \<^verbatim>\<open>while\<close> loop of \<^verbatim>\<open>run_pipeline\<close>: the \<^verbatim>\<open>try\<close> around the call of
  \<^verbatim>\<open>_execute_current_stage\<close> and the dispatch on the action, and \<open>stage_failed\<close>, the
  \<^verbatim>\<open>except\<close> branch. The result of an iteration is either an exception that leaves
  \<^verbatim>\<open>run_pipeline\<close> or the orchestrator together with the flag that the loop was left by
  \<^verbatim>\<open>break\<close>. An exception leaves \<^verbatim>\<open>run_pipeline\<close> from the \<^verbatim>\<open>except\<close> branch itself: from a
  callback for the \<^verbatim>\<open>stage_error\<close> event, or from reading the state when it is None.

  No stage handler answers Continue without a next stage. If one did, the code would store
  None as the stage; the loop test would pass, \<^verbatim>\<open>_execute_current_stage\<close> would raise
  AttributeError at \<^verbatim>\<open>stage.value\<close> inside the \<^verbatim>\<open>try\<close>, and the \<^verbatim>\<open>except\<close> branch would raise
  it again at \<^verbatim>\<open>self.state.current_stage.value\<close>, before it logs anything. That exception,
  which leaves \<^verbatim>\<open>run_pipeline\<close>, is the result given for this case.
\<close>

definition terminal_stages :: "PipelineStage list" where
  "terminal_stages = [COMPLETED, STAGE_FAILED, AWAITING_HUMAN_REVIEW]"

definition stage_failed :: "Env \<Rightarrow> Orchestrator \<Rightarrow> string \<Rightarrow> string + (bool \<times> Orchestrator)" where
  "stage_failed E self e =
     (case state self of
        None \<Rightarrow> Inl none_attribute_error
      | Some st \<Rightarrow>
          (case log_event self ''stage_error''
                  [(''stage'', PStr (stage_value (render E) (current_stage st))),
                   (''error'', PStr e)] of
             Inl (e', self') \<Rightarrow> Inl e'
           | Inr self1 \<Rightarrow>
               (let self2 = upd_state
                              (\<lambda>s. s\<lparr> state_errors := state_errors s
                                         @ [''Error in '' @ stage_value (render E) (current_stage s)
                                              @ '': '' @ e] \<rparr>) self1;
                    self3 = upd_state (\<lambda>s. s\<lparr> current_stage := STAGE_FAILED \<rparr>) self2
                in Inr (True, self3))))"

definition try_stage :: "Env \<Rightarrow> Orchestrator \<Rightarrow> string + (bool \<times> Orchestrator)" where
  "try_stage E self =
     (case execute_current_stage E self of
        Inl (e, self1) \<Rightarrow> stage_failed E self1 e
      | Inr (decision, self1) \<Rightarrow>
          (case action decision of
             RETRY \<Rightarrow> Inr (False, self1)
           | CONTINUE \<Rightarrow>
               (case state self1 of
                  None \<Rightarrow> stage_failed E self1 none_attribute_error
                | Some st \<Rightarrow>
                    (case next_stage decision of
                       None \<Rightarrow> Inl none_attribute_error
                     | Some ns \<Rightarrow>
                         Inr (False, upd_state (\<lambda>s. s\<lparr> current_stage := ns \<rparr>) self1)))
           | PAUSE \<Rightarrow>
               (case state self1 of
                  None \<Rightarrow> stage_failed E self1 none_attribute_error
                | Some st \<Rightarrow>
                    Inr (True, upd_state (\<lambda>s. s\<lparr> current_stage := AWAITING_HUMAN_REVIEW \<rparr>) self1))
           | ABORT \<Rightarrow>
               (case state self1 of
                  None \<Rightarrow> stage_failed E self1 none_attribute_error
                | Some st \<Rightarrow>
                    Inr (True,
                         upd_state (\<lambda>s. s\<lparr> state_errors := state_errors s @ [reason decision] \<rparr>)
                           (upd_state (\<lambda>s. s\<lparr> current_stage := STAGE_FAILED \<rparr>) self1)))
           | COMPLETE \<Rightarrow>
               (case state self1 of
                  None \<Rightarrow> stage_failed E self1 none_attribute_error
                | Some st \<Rightarrow>
                    Inr (True, upd_state (\<lambda>s. s\<lparr> current_stage := COMPLETED \<rparr>) self1))))"

text \<open>
  The loop, as a partial function into \<open>option\<close>: None would stand for a loop that runs
  forever (an iteration that answers Retry repeats the stage), \<open>Some (Inl e)\<close> stands for
  an exception that leaves \<^verbatim>\<open>run_pipeline\<close>. That the loop returns is proved below.
\<close>

partial_function (option) pipeline_loop ::
    "Env \<Rightarrow> Orchestrator \<Rightarrow> (string + Orchestrator) option" where
  "pipeline_loop E self =
     (case state self of
        None \<Rightarrow> Some (Inl none_attribute_error)
      | Some st \<Rightarrow>
          if current_stage st \<in> set terminal_stages then Some (Inr self)
          else (case try_stage E self of
                  Inl e \<Rightarrow> Some (Inl e)
                | Inr (left_by_break, self1) \<Rightarrow>
                    if left_by_break then Some (Inr self1)
                    else pipeline_loop E self1))"

definition run_pipeline ::
    "Env \<Rightarrow> Orchestrator \<Rightarrow> (string + (PipelineState \<times> Orchestrator)) option" where
  "run_pipeline E self =
     (case state self of
        None \<Rightarrow> Some (Inl ''Pipeline not initialized. Call create_pipeline first.'')
      | Some st \<Rightarrow>
          (case log_event self ''pipeline_started'' [(''job_id'', PStr (job_id st))] of
             Inl (e, self') \<Rightarrow> Some (Inl e)
           | Inr self0 \<Rightarrow>
               (case pipeline_loop E self0 of
                  None \<Rightarrow> None
                | Some (Inl e) \<Rightarrow> Some (Inl e)
                | Some (Inr self1) \<Rightarrow>
                    (case state self1 of
                       None \<Rightarrow> Some (Inl none_attribute_error)
                     | Some st1 \<Rightarrow>
                         (case log_event self1 ''pipeline_finished''
                                 [(''job_id'', PStr (job_id st1)),
                                  (''final_stage'',
                                     PStr (stage_value (render E) (current_stage st1))),
                                  (''error_count'', PInt (length (state_errors st1)))] of
                            Inl (e, self') \<Rightarrow> Some (Inl e)
                          | Inr self2 \<Rightarrow> Some (Inr (st1, self2)))))))"

section \<open>Descriptions used by the statements\<close>

text \<open>
  The responses of the resume parser for a list of candidates, in order, when the first
  invocation happens after \<open>k\<close> logged events; each invocation is recorded by one more
  event. The successful parses among them are the payloads of the responses whose status
  is Success.
\<close>

fun resume_responses ::
    "Env \<Rightarrow> (resume_input, ParsedResume) BaseAgent \<Rightarrow> nat \<Rightarrow> candidate_dict list
       \<Rightarrow> ParsedResume AgentResponse list" where
  "resume_responses E ag k [] = []"
| "resume_responses E ag k (c # cs) =
     run (render E) ag (elapsed_ms E k) (resume_input_of c) # resume_responses E ag (Suc k) cs"

definition successful_parses :: "ParsedResume AgentResponse list \<Rightarrow> ParsedResume list" where
  "successful_parses rs =
     concat (map (\<lambda>r. case data r of
                        Some d \<Rightarrow> (if status r = SUCCESS then [d] else [])
                      | None \<Rightarrow> []) rs)"

text \<open>
  A run that ends in Completed from the state \<open>st\<close>: it keeps the recorded agent responses,
  and the audit results are the ones the bias-audit stage writes unless the run started
  after that stage.
\<close>

definition completed_after :: "PipelineState \<Rightarrow> PipelineState option \<Rightarrow> bool" where
  "completed_after st final \<longleftrightarrow>
     (case final of
        None \<Rightarrow> False
      | Some st' \<Rightarrow>
          current_stage st' = COMPLETED
        \<and> (current_stage st \<noteq> BIAS_AUDIT \<longrightarrow>
             bias_audit_results st' = Some mock_bias_audit_results)
        \<and> (current_stage st = BIAS_AUDIT \<longrightarrow>
             bias_audit_results st' = bias_audit_results st)
        \<and> agent_responses st' = agent_responses st)"

text \<open>
  The governance outcome the spec asks for before completion: a recorded response of the
  bias auditor with status Success whose audit result has \<open>audit_passed\<close>.
\<close>

definition passing_audit_outcome :: "payload AgentResponse \<Rightarrow> bool" where
  "passing_audit_outcome r \<longleftrightarrow>
     agent_type r = ''BiasAuditorAgent'' \<and> status r = SUCCESS
   \<and> (case data r of Some (PayloadAudit a) \<Rightarrow> audit_passed a | _ \<Rightarrow> False)"

subsection \<open>An environment for worked examples\<close>

text \<open>
  Lists of plain strings are printed as Python prints them, natural numbers in decimal,
  reals with two decimals, and a stage by its lower-case name.
\<close>

definition digit_char :: "nat \<Rightarrow> char" where
  "digit_char d = char_of (48 + d)"

fun str_nat :: "nat \<Rightarrow> string" where
  "str_nat n = (if n < 10 then [digit_char n] else str_nat (n div 10) @ [digit_char (n mod 10)])"

declare str_nat.simps [simp del]

definition fixed2 :: "real \<Rightarrow> string" where
  "fixed2 x =
     (let n = nat \<lfloor>\<bar>x\<bar> * 100 + 1 / 2\<rfloor>
      in (if x < 0 then ''-'' else []) @ str_nat (n div 100) @ ''.''
           @ [digit_char (n div 10 mod 10), digit_char (n mod 10)])"

definition percent :: "real \<Rightarrow> string" where
  "percent x = str_nat (nat \<lfloor>x * 100 + 1 / 2\<rfloor>) @ ''%''"

fun join_comma :: "string list \<Rightarrow> string" where
  "join_comma [] = []"
| "join_comma [x] = x"
| "join_comma (x # y # ys) = x @ '', '' @ join_comma (y # ys)"

definition repr_list :: "string list \<Rightarrow> string" where
  "repr_list xs = ''['' @ join_comma (map (\<lambda>x. [CHR 0x27] @ x @ [CHR 0x27]) xs) @ '']''"

definition stage_name :: "PipelineStage \<Rightarrow> string" where
  "stage_name s =
     (case s of
        INITIALIZED \<Rightarrow> ''initialized'' | JD_ANALYSIS \<Rightarrow> ''jd_analysis''
      | RESUME_PARSING \<Rightarrow> ''resume_parsing'' | MATCHING \<Rightarrow> ''matching''
      | SHORTLISTING \<Rightarrow> ''shortlisting'' | TEST_GENERATION \<Rightarrow> ''test_generation''
      | TEST_EVALUATION \<Rightarrow> ''test_evaluation'' | RANKING \<Rightarrow> ''ranking''
      | BIAS_AUDIT \<Rightarrow> ''bias_audit'' | COMPLETED \<Rightarrow> ''completed''
      | STAGE_FAILED \<Rightarrow> ''failed'' | AWAITING_HUMAN_REVIEW \<Rightarrow> ''awaiting_human_review'')"

definition example_render :: Render where
  "example_render =
     \<lparr> fmt_2f = fixed2, fmt_pct = percent, str_real = fixed2, str_int = str_nat,
       str_list = repr_list, stage_value = stage_name,
       stage_str = (\<lambda>s. ''PipelineStage.'' @ stage_name s) \<rparr>"

definition example_env :: Env where
  "example_env =
     \<lparr> render = example_render,
       elapsed_ms = (\<lambda>k. 1),
       new_pipeline_id = ''pipeline-1'',
       new_gate_id = (\<lambda>k. ''gate-'' @ str_nat k) \<rparr>"

definition example_job :: JobDescription where
  "example_job =
     \<lparr> jd_job_id = ''job-1'', title = ''Engineer'', raw_description = ''Build things'',
       shortlist_threshold = None \<rparr>"

definition example_candidate :: "string \<Rightarrow> CandidateProfile" where
  "example_candidate cid =
     \<lparr> candidate_id = cid, anonymized_id = [], email_hash = [], resume_file_path = [],
       application_date = ''2024-01-01T00:00:00'', data_consent_given = True,
       consent_timestamp = None \<rparr>"

definition example_orchestrator :: Orchestrator where
  "example_orchestrator = OrchestratorAgent example_render ''jd-1'' ''rp-1'' ''ba-1''"

text \<open>The state a call of \<^verbatim>\<open>run_pipeline\<close> returns; None when it raises or never returns.\<close>

definition returned_state ::
    "(string + (PipelineState \<times> Orchestrator)) option \<Rightarrow> PipelineState option" where
  "returned_state res = (case res of Some (Inr (st, self)) \<Rightarrow> Some st | _ \<Rightarrow> None)"

text \<open>
  The orchestrator as a call left it, whether the call returned or raised, and the value
  the call returned (None when it raised); and the conditions that the callbacks registered for one event type, or for every event type,
  return normally whatever the event.
\<close>

definition orchestrator_after :: "(string \<times> Orchestrator) + ('a \<times> Orchestrator) \<Rightarrow> Orchestrator" where
  "orchestrator_after res = (case res of Inl (e, self) \<Rightarrow> self | Inr (v, self) \<Rightarrow> self)"

definition returned :: "(string \<times> Orchestrator) + ('a \<times> Orchestrator) \<Rightarrow> 'a option" where
  "returned res = (case res of Inl (e, self) \<Rightarrow> None | Inr (v, self) \<Rightarrow> Some v)"

definition callbacks_return :: "Orchestrator \<Rightarrow> string \<Rightarrow> bool" where
  "callbacks_return self etype \<longleftrightarrow> (\<forall>ev. dispatch (event_handlers self etype) ev = None)"

definition all_callbacks_return :: "Orchestrator \<Rightarrow> bool" where
  "all_callbacks_return self \<longleftrightarrow> (\<forall>etype. callbacks_return self etype)"

text \<open>
  The example pipelines: the orchestrator after \<^verbatim>\<open>create_pipeline\<close> for the example job and
  the given candidates. \<open>raising_callback\<close> is a callback that raises at once, and
  \<open>selective_parser\<close> a resume parser whose domain logic raises for candidate \<open>c2\<close>.
\<close>

definition example_pipeline :: "string list \<Rightarrow> Orchestrator" where
  "example_pipeline cids =
     orchestrator_after (create_pipeline example_env example_orchestrator example_job
                           (map example_candidate cids))"

definition raising_callback :: callback where
  "raising_callback ev = Some ''boom''"


text \<open>The findings of the four audits, in the order \<^verbatim>\<open>_process\<close> collects them.\<close>

definition audit_findings :: "Render \<Rightarrow> BiasAuditInput \<Rightarrow> finding list" where
  "audit_findings R x =
     fst (audit_jd_language R x) @ fst (audit_gate_consistency R x)
       @ fst (audit_score_distribution R x) @ fst (audit_explanation_quality R x)"

text \<open>
  Inputs of the bias auditor for the worked examples: a decision gate with the given
  bias flags, and the created example pipeline with the given gates and rankings.
\<close>

definition example_gate :: "string list \<Rightarrow> gate_dict" where
  "example_gate flags =
     \<lparr> gate_id = Some ''gate-0'',
       gate_name = ''shortlist_gate'',
       condition = ''Match score >= 0.7'',
       threshold = 0.7,
       passed = True,
       gate_explanation = ''Shortlisting decision gate passed'',
       bias_flags = Some flags \<rparr>"

definition example_audit_input :: "gate_dict list \<Rightarrow> FinalRanking list \<Rightarrow> BiasAuditInput" where
  "example_audit_input gates rs =
     \<lparr> pipeline_state =
         (new_pipeline_state example_env example_job
            [example_candidate ''c1''])\<lparr> decision_gates := gates \<rparr>,
       rankings = rs \<rparr>"

section \<open>Auxiliary facts about the orchestrator\<close>

lemma append_event_fields [simp]:
  "state (append_event self e d) = state self"
  "event_handlers (append_event self e d) = event_handlers self"
  "jd_analyzer (append_event self e d) = jd_analyzer self"
  "resume_parser (append_event self e d) = resume_parser self"
  "length (orch_audit_log (append_event self e d)) = Suc (length (orch_audit_log self))"
  by (simp_all add: append_event_def)

lemma upd_state_fields [simp]:
  "state (upd_state f self) = map_option f (state self)"
  "event_handlers (upd_state f self) = event_handlers self"
  "jd_analyzer (upd_state f self) = jd_analyzer self"
  "resume_parser (upd_state f self) = resume_parser self"
  "orch_audit_log (upd_state f self) = orch_audit_log self"
  by (simp_all add: upd_state_def)

lemma dispatch_raises:
  "dispatch hs ev = Some e \<Longrightarrow> \<exists>h \<in> set hs. h ev = Some e"
  by (induction hs) (auto split: option.splits)

lemma callbacks_return_handlers:
  "event_handlers a = event_handlers b \<Longrightarrow> callbacks_return a etype = callbacks_return b etype"
  by (simp add: callbacks_return_def)

lemma all_callbacks_return_handlers:
  "event_handlers a = event_handlers b \<Longrightarrow> all_callbacks_return a = all_callbacks_return b"
  by (simp add: all_callbacks_return_def callbacks_return_def)

lemma all_callbacks_returnD:
  "all_callbacks_return self \<Longrightarrow> callbacks_return self etype"
  by (simp add: all_callbacks_return_def)

lemma log_event_returns:
  "callbacks_return self etype \<Longrightarrow> log_event self etype d = Inr (append_event self etype d)"
  by (simp add: log_event_def callbacks_return_def Let_def)

lemma log_event_raises:
  "dispatch (event_handlers self etype) (make_event self etype d) = Some e \<Longrightarrow>
   log_event self etype d = Inl (e, append_event self etype d)"
  by (simp add: log_event_def Let_def)

lemma record_agent_response_returns:
  assumes "callbacks_return self ''agent_response''"
  shows "\<exists>self1. record_agent_response self wrap r = Inr self1
           \<and> state self1 =
               map_option (\<lambda>s. s\<lparr> agent_responses := agent_responses s @ [response_to_dict wrap r],
                                  state_warnings := state_warnings s @ warnings r \<rparr>) (state self)
           \<and> event_handlers self1 = event_handlers self
           \<and> jd_analyzer self1 = jd_analyzer self
           \<and> resume_parser self1 = resume_parser self
           \<and> length (orch_audit_log self1) = Suc (length (orch_audit_log self))"
proof -
  let ?self1 = "upd_state (add_agent_response (response_to_dict wrap r)) self"
  let ?self2 = "if warnings r \<noteq> []
                then upd_state (\<lambda>st. st\<lparr> state_warnings := state_warnings st @ warnings r \<rparr>) ?self1
                else ?self1"
  have h: "event_handlers ?self2 = event_handlers self" by simp
  have q: "callbacks_return ?self2 ''agent_response''"
    using assms callbacks_return_handlers[OF h] by simp
  have "record_agent_response self wrap r
          = Inr (append_event ?self2 ''agent_response''
                   [(''agent_type'', PStr (agent_type r)),
                    (''status'', PStr (AgentStatus_value (status r))),
                    (''confidence'', PNum (confidence r)),
                    (''requires_review'', PBool (requires_human_review r))])"
    unfolding record_agent_response_def Let_def by (rule log_event_returns[OF q])
  then show ?thesis
    by (cases "state self") (simp_all add: add_agent_response_def)
qed

lemma parse_resumes_char:
  assumes "callbacks_return self ''agent_response''"
  shows "\<exists>self'. parse_resumes E cs self acc =
             Inr (self', acc @ successful_parses
                    (resume_responses E (resume_parser self) (length (orch_audit_log self)) cs))
           \<and> state self' =
               map_option (\<lambda>s. s\<lparr> agent_responses := agent_responses s
                                      @ map (response_to_dict PayloadResume)
                                          (resume_responses E (resume_parser self)
                                             (length (orch_audit_log self)) cs),
                                  state_warnings := state_warnings s
                                      @ concat (map warnings
                                          (resume_responses E (resume_parser self)
                                             (length (orch_audit_log self)) cs)) \<rparr>) (state self)
           \<and> event_handlers self' = event_handlers self"
  using assms
proof (induction cs arbitrary: self acc)
  case Nil
  then show ?case by (cases "state self") (auto simp: successful_parses_def)
next
  case (Cons c cs)
  let ?r = "run (render E) (resume_parser self) (elapsed_ms E (length (orch_audit_log self)))
              (resume_input_of c)"
  let ?acc1 = "(case data ?r of Some d \<Rightarrow> if status ?r = SUCCESS then acc @ [d] else acc
               | None \<Rightarrow> acc)"
  from record_agent_response_returns[OF Cons.prems, of PayloadResume ?r] obtain self1 where
      r: "record_agent_response self PayloadResume ?r = Inr self1"
      and s1: "state self1 =
               map_option (\<lambda>s. s\<lparr> agent_responses := agent_responses s
                                      @ [response_to_dict PayloadResume ?r],
                                  state_warnings := state_warnings s @ warnings ?r \<rparr>) (state self)"
      and h1: "event_handlers self1 = event_handlers self"
      and p1: "resume_parser self1 = resume_parser self"
      and l1: "length (orch_audit_log self1) = Suc (length (orch_audit_log self))"
    by blast
  have q1: "callbacks_return self1 ''agent_response''"
    using Cons.prems callbacks_return_handlers[OF h1] by simp
  from Cons.IH[OF q1, of ?acc1] obtain self' where
      p: "parse_resumes E cs self1 ?acc1 =
             Inr (self', ?acc1 @ successful_parses
                    (resume_responses E (resume_parser self1) (length (orch_audit_log self1)) cs))"
      and s': "state self' =
               map_option (\<lambda>s. s\<lparr> agent_responses := agent_responses s
                                      @ map (response_to_dict PayloadResume)
                                          (resume_responses E (resume_parser self1)
                                             (length (orch_audit_log self1)) cs),
                                  state_warnings := state_warnings s
                                      @ concat (map warnings
                                          (resume_responses E (resume_parser self1)
                                             (length (orch_audit_log self1)) cs)) \<rparr>) (state self1)"
      and h': "event_handlers self' = event_handlers self1"
    by blast
  have "parse_resumes E (c # cs) self acc = parse_resumes E cs self1 ?acc1"
    using r by (simp add: Let_def)
  with p s' h' s1 h1 p1 l1 show ?case
    by (cases "state self") (auto simp: successful_parses_def split: option.splits)
qed

lemma loop_terminal:
  "state self = Some st \<Longrightarrow> current_stage st \<in> set terminal_stages \<Longrightarrow>
   pipeline_loop E self = Some (Inr self)"
  by (subst pipeline_loop.simps) simp

lemma loop_next:
  "state self = Some st \<Longrightarrow> current_stage st \<notin> set terminal_stages \<Longrightarrow>
   try_stage E self = Inr (False, self1) \<Longrightarrow>
   pipeline_loop E self = pipeline_loop E self1"
  by (subst pipeline_loop.simps) simp

lemma loop_break:
  "state self = Some st \<Longrightarrow> current_stage st \<notin> set terminal_stages \<Longrightarrow>
   try_stage E self = Inr (True, self1) \<Longrightarrow>
   pipeline_loop E self = Some (Inr self1)"
  by (subst pipeline_loop.simps) simp

lemma loop_raise:
  "state self = Some st \<Longrightarrow> current_stage st \<notin> set terminal_stages \<Longrightarrow>
   try_stage E self = Inl e \<Longrightarrow>
   pipeline_loop E self = Some (Inl e)"
  by (subst pipeline_loop.simps) simp

lemma stage_started_returns:
  assumes "state self = Some st" "callbacks_return self ''stage_started''"
  shows "execute_current_stage E self =
     (let stage = current_stage st;
          self1 = append_event self ''stage_started''
                    [(''stage'', PStr (stage_value (render E) stage))]
      in if stage = INITIALIZED then run_jd_analysis E self1
         else if stage = JD_ANALYSIS then run_resume_parsing E self1
         else if stage = RESUME_PARSING then run_matching E self1
         else if stage = MATCHING then run_shortlisting E self1
         else if stage = SHORTLISTING then run_test_generation E self1
         else if stage = TEST_GENERATION then run_test_evaluation E self1
         else if stage = TEST_EVALUATION then run_ranking E self1
         else if stage = RANKING then run_bias_audit E self1
         else if stage = BIAS_AUDIT
         then Inr (decide COMPLETE None ''Pipeline completed successfully'', self1)
         else Inr (decide ABORT None (''Unknown stage: '' @ stage_str (render E) stage), self1))"
  using assms by (simp add: execute_current_stage_def with_state_def log_event_returns Let_def)

lemmas stage_simps = terminal_stages_def try_stage_def with_state_def decide_def Let_def

lemma try_BIAS_AUDIT:
  assumes "state self = Some st" "current_stage st = BIAS_AUDIT"
    and "callbacks_return self ''stage_started''"
  shows "\<exists>self1. try_stage E self = Inr (True, self1)
           \<and> event_handlers self1 = event_handlers self
           \<and> state self1 = Some (st\<lparr> current_stage := COMPLETED \<rparr>)"
  using assms by (simp add: stage_started_returns stage_simps)

lemma try_RANKING:
  assumes "state self = Some st" "current_stage st = RANKING"
    and "callbacks_return self ''stage_started''"
  shows "\<exists>self1. try_stage E self = Inr (False, self1)
           \<and> event_handlers self1 = event_handlers self
           \<and> state self1 = Some (st\<lparr> bias_audit_results := Some mock_bias_audit_results, current_stage := BIAS_AUDIT \<rparr>)"
  using assms by (simp add: stage_started_returns stage_simps run_bias_audit_def)

lemma try_TEST_EVALUATION:
  assumes "state self = Some st" "current_stage st = TEST_EVALUATION"
    and "callbacks_return self ''stage_started''"
  shows "\<exists>self1. try_stage E self = Inr (False, self1)
           \<and> event_handlers self1 = event_handlers self
           \<and> state self1 = Some (st\<lparr> final_rankings := [], current_stage := RANKING \<rparr>)"
  using assms by (simp add: stage_started_returns stage_simps run_ranking_def)

lemma try_TEST_GENERATION:
  assumes "state self = Some st" "current_stage st = TEST_GENERATION"
    and "callbacks_return self ''stage_started''"
  shows "\<exists>self1. try_stage E self = Inr (False, self1)
           \<and> event_handlers self1 = event_handlers self
           \<and> state self1 = Some (st\<lparr> test_results := [], current_stage := TEST_EVALUATION \<rparr>)"
  using assms by (simp add: stage_started_returns stage_simps run_test_evaluation_def)

lemma try_SHORTLISTING:
  assumes "state self = Some st" "current_stage st = SHORTLISTING"
    and "callbacks_return self ''stage_started''"
  shows "\<exists>self1. try_stage E self = Inr (False, self1)
           \<and> event_handlers self1 = event_handlers self
           \<and> state self1 = Some (st\<lparr> test_questions := [], current_stage := TEST_GENERATION \<rparr>)"
  using assms by (simp add: stage_started_returns stage_simps run_test_generation_def)

lemma try_MATCHING:
  assumes "state self = Some st" "current_stage st = MATCHING"
    and "callbacks_return self ''stage_started''"
  shows "\<exists>self1. try_stage E self = Inr (False, self1)
           \<and> event_handlers self1 = event_handlers self
           \<and> state self1 = Some (st\<lparr> decision_gates := decision_gates st @ [shortlist_gate E st], current_stage := SHORTLISTING \<rparr>)"
  using assms by (simp add: stage_started_returns stage_simps run_shortlisting_def add_decision_gate_def)

lemma try_RESUME_PARSING:
  assumes "state self = Some st" "current_stage st = RESUME_PARSING"
    and "callbacks_return self ''stage_started''"
  shows "\<exists>self1. try_stage E self = Inr (False, self1)
           \<and> event_handlers self1 = event_handlers self
           \<and> state self1 = Some (st\<lparr> match_results := [], current_stage := MATCHING \<rparr>)"
  using assms by (simp add: stage_started_returns stage_simps run_matching_def)

lemma try_JD_ANALYSIS:
  assumes "state self = Some st" "current_stage st = JD_ANALYSIS"
    and "callbacks_return self ''stage_started''" "callbacks_return self ''agent_response''"
  shows "\<exists>self1. try_stage E self = Inr (False, self1)
           \<and> event_handlers self1 = event_handlers self
           \<and> state self1 = Some (st\<lparr>
                agent_responses := agent_responses st @ map (response_to_dict PayloadResume)
                   (resume_responses E (resume_parser self) (Suc (length (orch_audit_log self)))
                      (candidates st)),
                state_warnings := state_warnings st @ concat (map warnings
                   (resume_responses E (resume_parser self) (Suc (length (orch_audit_log self)))
                      (candidates st))),
                candidates := map (\<lambda>(c, pr). c\<lparr> parsed_resume := Some pr \<rparr>)
                   (zip (candidates st) (successful_parses
                     (resume_responses E (resume_parser self) (Suc (length (orch_audit_log self)))
                        (candidates st)))),
                current_stage := RESUME_PARSING \<rparr>)"
proof -
  let ?self0 = "append_event self ''stage_started''
                  [(''stage'', PStr (stage_value (render E) JD_ANALYSIS))]"
  have q: "callbacks_return ?self0 ''agent_response''"
    using assms(4) callbacks_return_handlers[of ?self0 self] by simp
  from parse_resumes_char[OF q, of E "candidates st" "[]"] obtain self' where
      p: "parse_resumes E (candidates st) ?self0 [] =
            Inr (self', successful_parses
                   (resume_responses E (resume_parser self) (Suc (length (orch_audit_log self)))
                      (candidates st)))"
      and s': "state self' =
               map_option (\<lambda>s. s\<lparr> agent_responses := agent_responses s
                                      @ map (response_to_dict PayloadResume)
                                          (resume_responses E (resume_parser self)
                                             (Suc (length (orch_audit_log self))) (candidates st)),
                                  state_warnings := state_warnings s
                                      @ concat (map warnings
                                          (resume_responses E (resume_parser self)
                                             (Suc (length (orch_audit_log self))) (candidates st))) \<rparr>)
                 (state self)"
      and h': "event_handlers self' = event_handlers self"
    by auto
  from p s' h' assms(1,2,3) show ?thesis
    by (simp add: stage_started_returns stage_simps run_resume_parsing_def)
qed

lemma try_INITIALIZED:
  assumes "state self = Some st" "current_stage st = INITIALIZED"
    and "callbacks_return self ''stage_started''" "callbacks_return self ''agent_response''"
    and r: "r = run (render E) (jd_analyzer self) (elapsed_ms E (Suc (length (orch_audit_log self))))
                  (job_description st)"
  shows "\<exists>self1. try_stage E self = Inr (status r \<noteq> SUCCESS, self1)
           \<and> event_handlers self1 = event_handlers self
           \<and> resume_parser self1 = resume_parser self
           \<and> length (orch_audit_log self1) = Suc (Suc (length (orch_audit_log self)))
           \<and> state self1 = Some
               (if status r = SUCCESS
                then st\<lparr> agent_responses := agent_responses st @ [response_to_dict PayloadJD r],
                         state_warnings := state_warnings st @ warnings r,
                         parsed_jd := data r,
                         current_stage := JD_ANALYSIS \<rparr>
                else st\<lparr> agent_responses := agent_responses st @ [response_to_dict PayloadJD r],
                         state_warnings := state_warnings st @ warnings r,
                         current_stage := STAGE_FAILED,
                         state_errors := state_errors st
                           @ [''JD analysis failed: '' @ str_list (render E) (errors r)] \<rparr>)"
proof -
  let ?self0 = "append_event self ''stage_started''
                  [(''stage'', PStr (stage_value (render E) INITIALIZED))]"
  have q: "callbacks_return ?self0 ''agent_response''"
    using assms(4) callbacks_return_handlers[of ?self0 self] by simp
  have r0: "r = run (render E) (jd_analyzer ?self0) (elapsed_ms E (length (orch_audit_log ?self0)))
                  (job_description st)"
    by (simp add: r)
  from record_agent_response_returns[OF q, of PayloadJD r] obtain self1 where
      rr: "record_agent_response ?self0 PayloadJD r = Inr self1"
      and s1: "state self1 =
               map_option (\<lambda>s. s\<lparr> agent_responses := agent_responses s @ [response_to_dict PayloadJD r],
                                  state_warnings := state_warnings s @ warnings r \<rparr>) (state ?self0)"
      and h1: "event_handlers self1 = event_handlers ?self0"
      and p1: "resume_parser self1 = resume_parser ?self0"
      and l1: "length (orch_audit_log self1) = Suc (length (orch_audit_log ?self0))"
    by blast
  have j: "run_jd_analysis E ?self0 =
             (if status r = SUCCESS
              then Inr (decide CONTINUE (Some JD_ANALYSIS) ''JD analysis completed'',
                        upd_state (\<lambda>s. s\<lparr> parsed_jd := data r \<rparr>) self1)
              else Inr (decide ABORT None
                          (''JD analysis failed: '' @ str_list (render E) (errors r)),
                        self1))"
    using assms(1) rr unfolding r0 by (simp add: run_jd_analysis_def with_state_def Let_def)
  from j s1 h1 p1 l1 assms(1,2,3) show ?thesis
    by (simp add: stage_started_returns stage_simps)
qed

lemma completes_from_BIAS_AUDIT:
  assumes "state self = Some st" "current_stage st = BIAS_AUDIT" and q: "all_callbacks_return self"
  shows "\<exists>self'. pipeline_loop E self = Some (Inr self')
           \<and> event_handlers self' = event_handlers self
           \<and> completed_after st (state self')"
proof -
  from try_BIAS_AUDIT[OF assms(1,2) all_callbacks_returnD[OF q], of E] obtain self1 where
      t: "try_stage E self = Inr (True, self1)"
      and h1: "event_handlers self1 = event_handlers self"
      and s1: "state self1 = Some (st\<lparr> current_stage := COMPLETED \<rparr>)"
    by auto
  have nt: "current_stage st \<notin> set terminal_stages"
    using assms(2) by (simp add: terminal_stages_def)
  have "pipeline_loop E self = Some (Inr self1)"
    by (rule loop_break[OF assms(1) nt t])
  with s1 h1 assms show ?thesis by (simp add: completed_after_def)
qed

lemma completes_from_RANKING:
  assumes "state self = Some st" "current_stage st = RANKING" and q: "all_callbacks_return self"
  shows "\<exists>self'. pipeline_loop E self = Some (Inr self')
           \<and> event_handlers self' = event_handlers self
           \<and> completed_after st (state self')"
proof -
  from try_RANKING[OF assms(1,2) all_callbacks_returnD[OF q], of E] obtain self1 st1 where
      t: "try_stage E self = Inr (False, self1)"
      and h1: "event_handlers self1 = event_handlers self"
      and s1: "state self1 = Some st1" and c1: "current_stage st1 = BIAS_AUDIT"
      and k: "agent_responses st1 = agent_responses st"
      and b: "current_stage st1 = BIAS_AUDIT \<longrightarrow>
                bias_audit_results st1 = Some mock_bias_audit_results"
    by auto
  have q1: "all_callbacks_return self1"
    using q all_callbacks_return_handlers[OF h1] by simp
  have nt: "current_stage st \<notin> set terminal_stages"
    using assms(2) by (simp add: terminal_stages_def)
  have "pipeline_loop E self = pipeline_loop E self1"
    by (rule loop_next[OF assms(1) nt t])
  with completes_from_BIAS_AUDIT[OF s1 c1 q1, of E] k b c1 h1 assms(2) show ?thesis
    by (auto simp: completed_after_def split: option.splits)
qed

lemma completes_from_TEST_EVALUATION:
  assumes "state self = Some st" "current_stage st = TEST_EVALUATION" and q: "all_callbacks_return self"
  shows "\<exists>self'. pipeline_loop E self = Some (Inr self')
           \<and> event_handlers self' = event_handlers self
           \<and> completed_after st (state self')"
proof -
  from try_TEST_EVALUATION[OF assms(1,2) all_callbacks_returnD[OF q], of E] obtain self1 st1 where
      t: "try_stage E self = Inr (False, self1)"
      and h1: "event_handlers self1 = event_handlers self"
      and s1: "state self1 = Some st1" and c1: "current_stage st1 = RANKING"
      and k: "agent_responses st1 = agent_responses st"
      and b: "current_stage st1 = BIAS_AUDIT \<longrightarrow>
                bias_audit_results st1 = Some mock_bias_audit_results"
    by auto
  have q1: "all_callbacks_return self1"
    using q all_callbacks_return_handlers[OF h1] by simp
  have nt: "current_stage st \<notin> set terminal_stages"
    using assms(2) by (simp add: terminal_stages_def)
  have "pipeline_loop E self = pipeline_loop E self1"
    by (rule loop_next[OF assms(1) nt t])
  with completes_from_RANKING[OF s1 c1 q1, of E] k b c1 h1 assms(2) show ?thesis
    by (auto simp: completed_after_def split: option.splits)
qed

lemma completes_from_TEST_GENERATION:
  assumes "state self = Some st" "current_stage st = TEST_GENERATION" and q: "all_callbacks_return self"
  shows "\<exists>self'. pipeline_loop E self = Some (Inr self')
           \<and> event_handlers self' = event_handlers self
           \<and> completed_after st (state self')"
proof -
  from try_TEST_GENERATION[OF assms(1,2) all_callbacks_returnD[OF q], of E] obtain self1 st1 where
      t: "try_stage E self = Inr (False, self1)"
      and h1: "event_handlers self1 = event_handlers self"
      and s1: "state self1 = Some st1" and c1: "current_stage st1 = TEST_EVALUATION"
      and k: "agent_responses st1 = agent_responses st"
      and b: "current_stage st1 = BIAS_AUDIT \<longrightarrow>
                bias_audit_results st1 = Some mock_bias_audit_results"
    by auto
  have q1: "all_callbacks_return self1"
    using q all_callbacks_return_handlers[OF h1] by simp
  have nt: "current_stage st \<notin> set terminal_stages"
    using assms(2) by (simp add: terminal_stages_def)
  have "pipeline_loop E self = pipeline_loop E self1"
    by (rule loop_next[OF assms(1) nt t])
  with completes_from_TEST_EVALUATION[OF s1 c1 q1, of E] k b c1 h1 assms(2) show ?thesis
    by (auto simp: completed_after_def split: option.splits)
qed

lemma completes_from_SHORTLISTING:
  assumes "state self = Some st" "current_stage st = SHORTLISTING" and q: "all_callbacks_return self"
  shows "\<exists>self'. pipeline_loop E self = Some (Inr self')
           \<and> event_handlers self' = event_handlers self
           \<and> completed_after st (state self')"
proof -
  from try_SHORTLISTING[OF assms(1,2) all_callbacks_returnD[OF q], of E] obtain self1 st1 where
      t: "try_stage E self = Inr (False, self1)"
      and h1: "event_handlers self1 = event_handlers self"
      and s1: "state self1 = Some st1" and c1: "current_stage st1 = TEST_GENERATION"
      and k: "agent_responses st1 = agent_responses st"
      and b: "current_stage st1 = BIAS_AUDIT \<longrightarrow>
                bias_audit_results st1 = Some mock_bias_audit_results"
    by auto
  have q1: "all_callbacks_return self1"
    using q all_callbacks_return_handlers[OF h1] by simp
  have nt: "current_stage st \<notin> set terminal_stages"
    using assms(2) by (simp add: terminal_stages_def)
  have "pipeline_loop E self = pipeline_loop E self1"
    by (rule loop_next[OF assms(1) nt t])
  with completes_from_TEST_GENERATION[OF s1 c1 q1, of E] k b c1 h1 assms(2) show ?thesis
    by (auto simp: completed_after_def split: option.splits)
qed

lemma completes_from_MATCHING:
  assumes "state self = Some st" "current_stage st = MATCHING" and q: "all_callbacks_return self"
  shows "\<exists>self'. pipeline_loop E self = Some (Inr self')
           \<and> event_handlers self' = event_handlers self
           \<and> completed_after st (state self')"
proof -
  from try_MATCHING[OF assms(1,2) all_callbacks_returnD[OF q], of E] obtain self1 st1 where
      t: "try_stage E self = Inr (False, self1)"
      and h1: "event_handlers self1 = event_handlers self"
      and s1: "state self1 = Some st1" and c1: "current_stage st1 = SHORTLISTING"
      and k: "agent_responses st1 = agent_responses st"
      and b: "current_stage st1 = BIAS_AUDIT \<longrightarrow>
                bias_audit_results st1 = Some mock_bias_audit_results"
    by auto
  have q1: "all_callbacks_return self1"
    using q all_callbacks_return_handlers[OF h1] by simp
  have nt: "current_stage st \<notin> set terminal_stages"
    using assms(2) by (simp add: terminal_stages_def)
  have "pipeline_loop E self = pipeline_loop E self1"
    by (rule loop_next[OF assms(1) nt t])
  with completes_from_SHORTLISTING[OF s1 c1 q1, of E] k b c1 h1 assms(2) show ?thesis
    by (auto simp: completed_after_def split: option.splits)
qed

lemma completes_from_RESUME_PARSING:
  assumes "state self = Some st" "current_stage st = RESUME_PARSING" and q: "all_callbacks_return self"
  shows "\<exists>self'. pipeline_loop E self = Some (Inr self')
           \<and> event_handlers self' = event_handlers self
           \<and> completed_after st (state self')"
proof -
  from try_RESUME_PARSING[OF assms(1,2) all_callbacks_returnD[OF q], of E] obtain self1 st1 where
      t: "try_stage E self = Inr (False, self1)"
      and h1: "event_handlers self1 = event_handlers self"
      and s1: "state self1 = Some st1" and c1: "current_stage st1 = MATCHING"
      and k: "agent_responses st1 = agent_responses st"
      and b: "current_stage st1 = BIAS_AUDIT \<longrightarrow>
                bias_audit_results st1 = Some mock_bias_audit_results"
    by auto
  have q1: "all_callbacks_return self1"
    using q all_callbacks_return_handlers[OF h1] by simp
  have nt: "current_stage st \<notin> set terminal_stages"
    using assms(2) by (simp add: terminal_stages_def)
  have "pipeline_loop E self = pipeline_loop E self1"
    by (rule loop_next[OF assms(1) nt t])
  with completes_from_MATCHING[OF s1 c1 q1, of E] k b c1 h1 assms(2) show ?thesis
    by (auto simp: completed_after_def split: option.splits)
qed

lemma completes_from_JD_ANALYSIS:
  assumes "state self = Some st" "current_stage st = JD_ANALYSIS" and q: "all_callbacks_return self"
  shows "\<exists>self' st'. pipeline_loop E self = Some (Inr self')
           \<and> event_handlers self' = event_handlers self
           \<and> state self' = Some st' \<and> current_stage st' = COMPLETED
           \<and> bias_audit_results st' = Some mock_bias_audit_results
           \<and> agent_responses st' = agent_responses st @ map (response_to_dict PayloadResume)
                (resume_responses E (resume_parser self) (Suc (length (orch_audit_log self)))
                   (candidates st))"
proof -
  from try_JD_ANALYSIS[OF assms(1,2) all_callbacks_returnD[OF q] all_callbacks_returnD[OF q], of E]
  obtain self1 st1 where
      t: "try_stage E self = Inr (False, self1)"
      and h1: "event_handlers self1 = event_handlers self"
      and s1: "state self1 = Some st1" and c1: "current_stage st1 = RESUME_PARSING"
      and k: "agent_responses st1 = agent_responses st @ map (response_to_dict PayloadResume)
                (resume_responses E (resume_parser self) (Suc (length (orch_audit_log self)))
                   (candidates st))"
    by auto
  have q1: "all_callbacks_return self1"
    using q all_callbacks_return_handlers[OF h1] by simp
  have nt: "current_stage st \<notin> set terminal_stages"
    using assms(2) by (simp add: terminal_stages_def)
  have "pipeline_loop E self = pipeline_loop E self1"
    by (rule loop_next[OF assms(1) nt t])
  with completes_from_RESUME_PARSING[OF s1 c1 q1, of E] k c1 h1 show ?thesis
    by (auto simp: completed_after_def split: option.splits)
qed

lemma ends_from_INITIALIZED:
  assumes "state self = Some st" "current_stage st = INITIALIZED" and q: "all_callbacks_return self"
    and r: "r = run (render E) (jd_analyzer self) (elapsed_ms E (Suc (length (orch_audit_log self))))
                  (job_description st)"
  shows "\<exists>self' st'. pipeline_loop E self = Some (Inr self')
           \<and> event_handlers self' = event_handlers self
           \<and> state self' = Some st'
           \<and> (if status r = SUCCESS
               then current_stage st' = COMPLETED
                  \<and> bias_audit_results st' = Some mock_bias_audit_results
                  \<and> agent_responses st' = agent_responses st @ [response_to_dict PayloadJD r]
                       @ map (response_to_dict PayloadResume)
                           (resume_responses E (resume_parser self)
                              (Suc (Suc (Suc (length (orch_audit_log self))))) (candidates st))
               else current_stage st' = STAGE_FAILED
                  \<and> agent_responses st' = agent_responses st @ [response_to_dict PayloadJD r]
                  \<and> state_errors st' = state_errors st
                       @ [''JD analysis failed: '' @ str_list (render E) (errors r)])"
proof -
  from try_INITIALIZED[OF assms(1,2) all_callbacks_returnD[OF q] all_callbacks_returnD[OF q] r]
  obtain self1 st1 where
      t: "try_stage E self = Inr (status r \<noteq> SUCCESS, self1)"
      and h1: "event_handlers self1 = event_handlers self"
      and a: "resume_parser self1 = resume_parser self"
             "length (orch_audit_log self1) = Suc (Suc (length (orch_audit_log self)))"
      and s1: "state self1 = Some st1"
      and st1: "st1 = (if status r = SUCCESS
                then st\<lparr> agent_responses := agent_responses st @ [response_to_dict PayloadJD r],
                         state_warnings := state_warnings st @ warnings r,
                         parsed_jd := data r,
                         current_stage := JD_ANALYSIS \<rparr>
                else st\<lparr> agent_responses := agent_responses st @ [response_to_dict PayloadJD r],
                         state_warnings := state_warnings st @ warnings r,
                         current_stage := STAGE_FAILED,
                         state_errors := state_errors st
                           @ [''JD analysis failed: '' @ str_list (render E) (errors r)] \<rparr>)"
    by auto
  have q1: "all_callbacks_return self1"
    using q all_callbacks_return_handlers[OF h1] by simp
  have nt: "current_stage st \<notin> set terminal_stages"
    using assms(2) by (simp add: terminal_stages_def)
  show ?thesis
  proof (cases "status r = SUCCESS")
    case True
    with t have t': "try_stage E self = Inr (False, self1)" by simp
    have c1: "current_stage st1 = JD_ANALYSIS" using st1 True by simp
    have "pipeline_loop E self = pipeline_loop E self1"
      by (rule loop_next[OF assms(1) nt t'])
    with completes_from_JD_ANALYSIS[OF s1 c1 q1, of E] a h1 st1 True show ?thesis
      by auto
  next
    case False
    with t have t': "try_stage E self = Inr (True, self1)" by simp
    have "pipeline_loop E self = Some (Inr self1)"
      by (rule loop_break[OF assms(1) nt t'])
    with s1 st1 h1 False show ?thesis by simp
  qed
qed

lemma loop_returns:
  assumes "state self = Some st" and q: "all_callbacks_return self"
  shows "\<exists>self' st'. pipeline_loop E self = Some (Inr self')
           \<and> event_handlers self' = event_handlers self
           \<and> state self' = Some st'
           \<and> current_stage st' \<in> set terminal_stages"
proof (cases "current_stage st")
  case INITIALIZED
  from ends_from_INITIALIZED[OF assms(1) INITIALIZED q refl, of E] show ?thesis
    by (auto simp: terminal_stages_def split: if_splits)
next
  case JD_ANALYSIS
  from completes_from_JD_ANALYSIS[OF assms(1) JD_ANALYSIS q, of E] show ?thesis
    by (auto simp: terminal_stages_def)
next
  case RESUME_PARSING
  from completes_from_RESUME_PARSING[OF assms(1) RESUME_PARSING q, of E] show ?thesis
    by (auto simp: terminal_stages_def completed_after_def split: option.splits)
next
  case MATCHING
  from completes_from_MATCHING[OF assms(1) MATCHING q, of E] show ?thesis
    by (auto simp: terminal_stages_def completed_after_def split: option.splits)
next
  case SHORTLISTING
  from completes_from_SHORTLISTING[OF assms(1) SHORTLISTING q, of E] show ?thesis
    by (auto simp: terminal_stages_def completed_after_def split: option.splits)
next
  case TEST_GENERATION
  from completes_from_TEST_GENERATION[OF assms(1) TEST_GENERATION q, of E] show ?thesis
    by (auto simp: terminal_stages_def completed_after_def split: option.splits)
next
  case TEST_EVALUATION
  from completes_from_TEST_EVALUATION[OF assms(1) TEST_EVALUATION q, of E] show ?thesis
    by (auto simp: terminal_stages_def completed_after_def split: option.splits)
next
  case RANKING
  from completes_from_RANKING[OF assms(1) RANKING q, of E] show ?thesis
    by (auto simp: terminal_stages_def completed_after_def split: option.splits)
next
  case BIAS_AUDIT
  from completes_from_BIAS_AUDIT[OF assms(1) BIAS_AUDIT q, of E] show ?thesis
    by (auto simp: terminal_stages_def completed_after_def split: option.splits)
next
  case COMPLETED
  with assms(1) loop_terminal[OF assms(1), of E] show ?thesis
    by (simp add: terminal_stages_def)
next
  case STAGE_FAILED
  with assms(1) loop_terminal[OF assms(1), of E] show ?thesis
    by (simp add: terminal_stages_def)
next
  case AWAITING_HUMAN_REVIEW
  with assms(1) loop_terminal[OF assms(1), of E] show ?thesis
    by (simp add: terminal_stages_def)
qed

lemma agent_type_run [simp]: "agent_type (run R ag d x) = self_agent_type ag"
  by (simp add: run_def Let_def split: prod.splits sum.splits)

lemma agent_type_response_to_dict [simp]: "agent_type (response_to_dict w r) = agent_type r"
  by (simp add: response_to_dict_def)

lemma length_resume_responses [simp]: "length (resume_responses E ag k cs) = length cs"
  by (induction cs arbitrary: k) auto


lemma agent_types_resume_responses:
  "map agent_type (resume_responses E ag k cs) = replicate (length cs) (self_agent_type ag)"
  by (induction cs arbitrary: k) auto




lemma stage_failed_result:
  assumes "state self1 = Some st1" and "callbacks_return self1 ''stage_error''"
  shows "\<exists>self2. stage_failed E self1 e = Inr (True, self2)
           \<and> event_handlers self2 = event_handlers self1
           \<and> state self2 = Some (st1\<lparr> state_errors := state_errors st1
                 @ [''Error in '' @ stage_value (render E) (current_stage st1) @ '': '' @ e],
               current_stage := STAGE_FAILED \<rparr>)"
  using assms by (simp add: stage_failed_def log_event_returns Let_def)

lemma loop_handler_raises:
  assumes "state self = Some st" "current_stage st \<notin> set terminal_stages"
    and "execute_current_stage E self = Inl (e, self1)" "state self1 = Some st1"
    and "callbacks_return self1 ''stage_error''"
  shows "\<exists>self2. pipeline_loop E self = Some (Inr self2)
           \<and> event_handlers self2 = event_handlers self1
           \<and> state self2 = Some (st1\<lparr> state_errors := state_errors st1
                 @ [''Error in '' @ stage_value (render E) (current_stage st1) @ '': '' @ e],
               current_stage := STAGE_FAILED \<rparr>)"
proof -
  from stage_failed_result[OF assms(4,5), of E e] obtain self2 where
      f: "stage_failed E self1 e = Inr (True, self2)"
      and h2: "event_handlers self2 = event_handlers self1"
      and s2: "state self2 = Some (st1\<lparr> state_errors := state_errors st1
                 @ [''Error in '' @ stage_value (render E) (current_stage st1) @ '': '' @ e],
               current_stage := STAGE_FAILED \<rparr>)"
    by blast
  from f assms(3) have t: "try_stage E self = Inr (True, self2)"
    by (simp add: try_stage_def)
  from loop_break[OF assms(1,2) t] s2 h2 show ?thesis by blast
qed

lemma stage_started_raises:
  assumes "state self = Some st"
    and "dispatch (event_handlers self ''stage_started'')
           (make_event self ''stage_started''
              [(''stage'', PStr (stage_value (render E) (current_stage st)))]) = Some e"
  shows "execute_current_stage E self =
           Inl (e, append_event self ''stage_started''
                     [(''stage'', PStr (stage_value (render E) (current_stage st)))])"
  using assms by (simp add: execute_current_stage_def with_state_def log_event_raises Let_def)

lemma created_pipeline_state:
  "state (orchestrator_after (create_pipeline E self job cands))
     = Some (new_pipeline_state E job cands)"
  "event_handlers (orchestrator_after (create_pipeline E self job cands)) = event_handlers self"
  "jd_analyzer (orchestrator_after (create_pipeline E self job cands)) = jd_analyzer self"
  "resume_parser (orchestrator_after (create_pipeline E self job cands)) = resume_parser self"
  "length (orch_audit_log (orchestrator_after (create_pipeline E self job cands)))
     = Suc (length (orch_audit_log self))"
  by (simp_all add: create_pipeline_def log_event_def orchestrator_after_def append_event_def
        Let_def split: option.splits)

lemma new_pipeline_state_fields:
  "current_stage (new_pipeline_state E job cands) = INITIALIZED"
  "agent_responses (new_pipeline_state E job cands) = []"
  "candidates (new_pipeline_state E job cands) = map CandidateProfile_to_dict cands"
  "state_errors (new_pipeline_state E job cands) = []"
  "job_description (new_pipeline_state E job cands) = job"
  by (simp_all add: new_pipeline_state_def)

lemma create_pipeline_returns:
  assumes "callbacks_return self ''pipeline_created''"
  shows "create_pipeline E self job cands =
           Inr (new_pipeline_state E job cands,
                orchestrator_after (create_pipeline E self job cands))"
proof -
  have "callbacks_return (self\<lparr> state := Some (new_pipeline_state E job cands) \<rparr>)
          ''pipeline_created''"
    using assms by (simp add: callbacks_return_def)
  from log_event_returns[OF this] show ?thesis
    by (simp add: create_pipeline_def orchestrator_after_def Let_def)
qed

lemma create_pipeline_raises:
  assumes "create_pipeline E self job cands = Inl (e, self')"
  shows "\<exists>h \<in> set (event_handlers self ''pipeline_created''). \<exists>ev. h ev = Some e"
proof -
  from assms have "\<exists>ev. dispatch (event_handlers self ''pipeline_created'') ev = Some e"
    by (auto simp: create_pipeline_def log_event_def Let_def split: option.splits)
  then show ?thesis using dispatch_raises by blast
qed

lemma example_callbacks_return:
  "all_callbacks_return example_orchestrator"
  "all_callbacks_return (example_pipeline cids)"
  by (simp_all add: all_callbacks_return_def callbacks_return_def example_pipeline_def
        created_pipeline_state example_orchestrator_def OrchestratorAgent_def)

lemma status_JDAnalyzer [simp]:
  "status (run R (JDAnalyzerAgent R' a) d job) = SUCCESS"
  by (simp add: run_def JDAnalyzerAgent_def JDAnalyzer_process_def Let_def)

lemma run_pipeline_returns:
  assumes "state self = Some st" and q: "all_callbacks_return self"
  shows "\<exists>st' self'. run_pipeline E self = Some (Inr (st', self'))
           \<and> state self' = Some st'
           \<and> current_stage st' \<in> set terminal_stages"
proof -
  let ?self0 = "append_event self ''pipeline_started'' [(''job_id'', PStr (job_id st))]"
  have s0: "state ?self0 = Some st" using assms(1) by simp
  have q0: "all_callbacks_return ?self0"
    using q all_callbacks_return_handlers[of ?self0 self] by simp
  from loop_returns[OF s0 q0, of E] obtain self1 st1 where
      l: "pipeline_loop E ?self0 = Some (Inr self1)"
      and h1: "event_handlers self1 = event_handlers ?self0"
      and s1: "state self1 = Some st1"
      and t: "current_stage st1 \<in> set terminal_stages"
    by blast
  have q1: "all_callbacks_return self1"
    using q0 all_callbacks_return_handlers[OF h1] by simp
  from assms(1) l s1 all_callbacks_returnD[OF q] all_callbacks_returnD[OF q1]
  have "run_pipeline E self = Some (Inr (st1,
        append_event self1 ''pipeline_finished''
                        [(''job_id'', PStr (job_id st1)),
                         (''final_stage'', PStr (stage_value (render E) (current_stage st1))),
                         (''error_count'', PInt (length (state_errors st1)))]))"
    by (simp add: run_pipeline_def log_event_returns)
  with s1 t show ?thesis by simp
qed

lemma run_pipeline_completes:
  assumes s: "state self = Some st" and i: "current_stage st = INITIALIZED"
    and q: "all_callbacks_return self"
    and ok: "\<And>d. status (run (render E) (jd_analyzer self) d (job_description st)) = SUCCESS"
  shows "\<exists>st' self'. run_pipeline E self = Some (Inr (st', self'))
           \<and> current_stage st' = COMPLETED
           \<and> bias_audit_results st' = Some mock_bias_audit_results
           \<and> map agent_type (agent_responses st') =
               map agent_type (agent_responses st) @ [self_agent_type (jd_analyzer self)]
                 @ replicate (length (candidates st)) (self_agent_type (resume_parser self))"
proof -
  let ?self0 = "append_event self ''pipeline_started'' [(''job_id'', PStr (job_id st))]"
  have s0: "state ?self0 = Some st" using s by simp
  have j0: "jd_analyzer ?self0 = jd_analyzer self" by simp
  have q0: "all_callbacks_return ?self0"
    using q all_callbacks_return_handlers[of ?self0 self] by simp
  from ends_from_INITIALIZED[OF s0 i q0 refl, of E] ok j0 obtain self1 st1 where
      l: "pipeline_loop E ?self0 = Some (Inr self1)"
      and h1: "event_handlers self1 = event_handlers ?self0"
      and s1: "state self1 = Some st1"
      and c: "current_stage st1 = COMPLETED"
      and b: "bias_audit_results st1 = Some mock_bias_audit_results"
      and a: "map agent_type (agent_responses st1) =
               map agent_type (agent_responses st) @ [self_agent_type (jd_analyzer self)]
                 @ replicate (length (candidates st)) (self_agent_type (resume_parser self))"
    by (auto simp: agent_types_resume_responses comp_def)
  have q1: "all_callbacks_return self1"
    using q0 all_callbacks_return_handlers[OF h1] by simp
  from s l s1 all_callbacks_returnD[OF q] all_callbacks_returnD[OF q1]
  have "run_pipeline E self = Some (Inr (st1,
        append_event self1 ''pipeline_finished''
                        [(''job_id'', PStr (job_id st1)),
                         (''final_stage'', PStr (stage_value (render E) (current_stage st1))),
                         (''error_count'', PInt (length (state_errors st1)))]))"
    by (simp add: run_pipeline_def log_event_returns)
  with c b a show ?thesis by simp
qed

lemma run_pipeline_started_raises:
  assumes "state self = Some st"
    and "dispatch (event_handlers self ''pipeline_started'')
           (make_event self ''pipeline_started'' [(''job_id'', PStr (job_id st))]) = Some e"
  shows "run_pipeline E self = Some (Inl e)"
  using assms by (simp add: run_pipeline_def log_event_raises)

lemma on_event_fields [simp]:
  "state (on_event self etype h) = state self"
  "event_handlers (on_event self etype h) etype' =
     (if etype' = etype then event_handlers self etype @ [h] else event_handlers self etype')"
  by (simp_all add: on_event_def)

lemma example_pipeline_handlers [simp]:
  "event_handlers (example_pipeline cids) etype = []"
  by (simp add: example_pipeline_def created_pipeline_state example_orchestrator_def
        OrchestratorAgent_def)

section \<open>Auxiliary facts about the bias auditor\<close>

lemma penalty_by_counts:
  assumes "\<forall>f \<in> set fs. severity f = ''high'' \<or> severity f = ''medium'' \<or> severity f = ''low''"
  shows "sum_list (map (\<lambda>f. severity_weight (severity f)) fs)
           = 0.3 * real (count_severity ''high'' fs)
           + 0.15 * real (count_severity ''medium'' fs)
           + 0.05 * real (count_severity ''low'' fs)
       \<and> length fs = count_severity ''high'' fs + count_severity ''medium'' fs
                      + count_severity ''low'' fs"
  using assms
proof (induction fs)
  case Nil
  then show ?case by (simp add: count_severity_def)
next
  case (Cons f fs)
  then have ih: "sum_list (map (\<lambda>f. severity_weight (severity f)) fs)
           = 0.3 * real (count_severity ''high'' fs)
           + 0.15 * real (count_severity ''medium'' fs)
           + 0.05 * real (count_severity ''low'' fs)"
     "length fs = count_severity ''high'' fs + count_severity ''medium'' fs
                      + count_severity ''low'' fs"
    by simp_all
  from Cons.prems have
    "severity f = ''high'' \<or> severity f = ''medium'' \<or> severity f = ''low''" by simp
  then show ?case
    using ih by (elim disjE) (simp_all add: count_severity_def severity_weight_def algebra_simps)
qed

lemma audit_severities:
  "\<forall>f \<in> set (fst (audit_jd_language R x)). severity f = ''medium''"
  "\<forall>f \<in> set (fst (audit_gate_consistency R x)). severity f = ''high''"
  "\<forall>f \<in> set (fst (audit_score_distribution R x)). severity f = ''low''"
  "\<forall>f \<in> set (fst (audit_explanation_quality R x)). severity f = ''medium''"
  by (simp_all add: audit_jd_language_def audit_gate_consistency_def
        audit_score_distribution_def audit_explanation_quality_def Let_def)

lemma list_ex_count_severity:
  "list_ex (\<lambda>f. severity f = s) fs = (0 < count_severity s fs)"
  by (induction fs) (auto simp: count_severity_def)

lemma BiasAuditor_result:
  "\<exists>steps res expl. BiasAuditor_process R x = (steps, Inr (res, 0.9, expl))
     \<and> findings res = audit_findings R x
     \<and> overall_fairness_score res
         = max 0 (1 - sum_list (map (\<lambda>f. severity_weight (severity f)) (audit_findings R x)))
     \<and> audit_passed res
         = (overall_fairness_score res \<ge> 0.7
            \<and> \<not> list_ex (\<lambda>f. severity f = ''high'') (audit_findings R x))
     \<and> result_requires_human_review res
         = (\<not> audit_passed res \<or> list_ex (\<lambda>f. severity f = ''high'') (audit_findings R x))"
  by (simp add: BiasAuditor_process_def audit_findings_def Let_def)

lemma audit_findings_severities:
  "\<forall>f \<in> set (audit_findings R x).
      severity f = ''high'' \<or> severity f = ''medium'' \<or> severity f = ''low''"
  using audit_severities[of R x] by (auto simp: audit_findings_def)

section \<open>The claims\<close>

text \<open>
  C3. Whenever the domain logic \<^verbatim>\<open>_process\<close> raises, \<^verbatim>\<open>run\<close> still returns a response:
  its status is Failed, its confidence 0.0, its data None, the error text is a
  reasoning step of the audit trail and the content of \<^verbatim>\<open>errors\<close>, human review is
  required and the explanation is the synthesized failure message. \<^verbatim>\<open>run\<close> has no
  raising path: its result is always a response.
\<close>

theorem run_contains_failure:
  assumes "process self input_data = (steps, Inl e)"
  shows "status (run R self duration input_data) = FAILED
       \<and> confidence (run R self duration input_data) = 0.0
       \<and> data (run R self duration input_data) = None
       \<and> ''Failed with error: '' @ e \<in> set (audit_trail (run R self duration input_data))
       \<and> errors (run R self duration input_data) = [e]
       \<and> requires_human_review (run R self duration input_data)
       \<and> explanation (run R self duration input_data) = ''Agent failed: '' @ e"
  using assms by (simp add: run_def log_reasoning_def)

theorem run_contains_failure_witness:
  "process (ResumeParserAgent ''a1'')
       \<lparr> ri_candidate_id = ''c1'', ri_resume_text = '''', ri_resume_format = ''txt'' \<rparr>
     = ([''Starting resume parsing''], Inl ''No resume text provided'')
   \<and> status (run example_render (ResumeParserAgent ''a1'') 5
         \<lparr> ri_candidate_id = ''c1'', ri_resume_text = '''', ri_resume_format = ''txt'' \<rparr>) = FAILED
   \<and> errors (run example_render (ResumeParserAgent ''a1'') 5
         \<lparr> ri_candidate_id = ''c1'', ri_resume_text = '''', ri_resume_format = ''txt'' \<rparr>)
       = [''No resume text provided'']"
proof -
  have p: "process (ResumeParserAgent ''a1'')
       \<lparr> ri_candidate_id = ''c1'', ri_resume_text = '''', ri_resume_format = ''txt'' \<rparr>
     = ([''Starting resume parsing''], Inl ''No resume text provided'')"
    by (simp add: ResumeParserAgent_def ResumeParser_process_def)
  from run_contains_failure [OF p, of example_render 5] p show ?thesis by simp
qed

text \<open>
  C4. For every response produced by \<^verbatim>\<open>run\<close>, human review is required exactly when the
  reported confidence is strictly below the agent's configured threshold or the status is
  Failed. The threshold is 0.7 by default (the JD analyzer keeps it), 0.9 for the bias
  auditor and 0.6 for the resume parser.
\<close>

theorem review_iff_low_confidence_or_failed:
  "requires_human_review (run R self duration input_data)
     = (confidence (run R self duration input_data) < required_confidence_threshold self
        \<or> status (run R self duration input_data) = FAILED)
   \<and> default_confidence_threshold = 0.7
   \<and> required_confidence_threshold (JDAnalyzerAgent R a) = 0.7
   \<and> required_confidence_threshold (BiasAuditorAgent R a) = 0.9
   \<and> required_confidence_threshold (ResumeParserAgent a) = 0.6"
  by (simp add: run_def Let_def JDAnalyzerAgent_def BiasAuditorAgent_def ResumeParserAgent_def
        default_confidence_threshold_def split: prod.splits sum.splits)



text \<open>
  C8 (as the code has it). \<^verbatim>\<open>log_decision_gate\<close> does not compare the measured value with
  the threshold: the outcome it records is the verdict its caller passes in. It flags the
  entry as borderline (for review) exactly when the value lies within the fixed margin 0.1
  of the threshold, so the pairs (0.75, 0.7), (0.95, 0.7) and (0.5, 0.7) are flagged, not
  flagged and not flagged; the entry is appended to the ledger.
\<close>

theorem decision_gate_records_verdict_and_margin:
  "outcome (fst (log_decision_gate fresh entries name gate_passed t v pid jid cid))
     = Some (if gate_passed then ''passed'' else ''failed'')
   \<and> requires_review (fst (log_decision_gate fresh entries name gate_passed t v pid jid cid))
     = (\<bar>v - t\<bar> < 0.1)
   \<and> snd (log_decision_gate fresh entries name gate_passed t v pid jid cid)
     = entries @ [fst (log_decision_gate fresh entries name gate_passed t v pid jid cid)]
   \<and> requires_review (fst (log_decision_gate fresh entries name True 0.7 0.75 pid jid cid))
   \<and> \<not> requires_review (fst (log_decision_gate fresh entries name True 0.7 0.95 pid jid cid))
   \<and> \<not> requires_review (fst (log_decision_gate fresh entries name False 0.7 0.5 pid jid cid))"
  by (simp add: log_decision_gate_def log_def Let_def)

theorem gate_verdict_not_computed_counterexample:
  "(0.95::real) \<ge> 0.7
   \<and> outcome (fst (log_decision_gate (''e1'', ''2024-01-01T00:00:00'') [] ''shortlist_gate''
                     False 0.7 0.95 None None None)) = Some ''failed''"
  by (simp add: log_decision_gate_def log_def Let_def)

text \<open>
  C9 (as the code has it). \<^verbatim>\<open>create_pipeline\<close> validates nothing: for every job and every
  candidate list, the empty list and a job with an empty identifier included, it stores a
  fresh state at Initialized that snapshots the job and the candidates, with empty logs,
  and logs the creation event. It returns that state whenever the callbacks registered for
  the creation event return, and the only exception that can leave the call is one raised
  by such a callback.
\<close>

theorem create_pipeline_always_creates:
  "state (orchestrator_after (create_pipeline E self job cands))
     = Some (new_pipeline_state E job cands)
   \<and> current_stage (new_pipeline_state E job cands) = INITIALIZED
   \<and> pipeline_id (new_pipeline_state E job cands) = new_pipeline_id E
   \<and> job_id (new_pipeline_state E job cands) = jd_job_id job
   \<and> job_description (new_pipeline_state E job cands) = job
   \<and> candidates (new_pipeline_state E job cands) = map CandidateProfile_to_dict cands
   \<and> agent_responses (new_pipeline_state E job cands) = []
   \<and> decision_gates (new_pipeline_state E job cands) = []
   \<and> state_errors (new_pipeline_state E job cands) = []
   \<and> state_warnings (new_pipeline_state E job cands) = []
   \<and> length (orch_audit_log (orchestrator_after (create_pipeline E self job cands)))
       = Suc (length (orch_audit_log self))
   \<and> (callbacks_return self ''pipeline_created'' \<longrightarrow>
        create_pipeline E self job cands
          = Inr (new_pipeline_state E job cands,
                 orchestrator_after (create_pipeline E self job cands)))
   \<and> (\<forall>e self'. create_pipeline E self job cands = Inl (e, self') \<longrightarrow>
        (\<exists>h \<in> set (event_handlers self ''pipeline_created''). \<exists>ev. h ev = Some e))"
  using create_pipeline_returns[of self E job cands] create_pipeline_raises[of E self job cands]
  by (simp add: created_pipeline_state) (simp add: new_pipeline_state_def)

theorem create_pipeline_always_creates_witness:
  "returned (create_pipeline example_env example_orchestrator example_job
               [example_candidate ''c1''])
     = Some (new_pipeline_state example_env example_job [example_candidate ''c1''])
   \<and> state (orchestrator_after (create_pipeline example_env example_orchestrator example_job
               [example_candidate ''c1'']))
     = Some (new_pipeline_state example_env example_job [example_candidate ''c1''])"
proof -
  have q: "callbacks_return example_orchestrator ''pipeline_created''"
    by (rule all_callbacks_returnD[OF example_callbacks_return(1)])
  from create_pipeline_always_creates[of example_env example_orchestrator example_job
         "[example_candidate ''c1'']"] q
  have "create_pipeline example_env example_orchestrator example_job [example_candidate ''c1'']
          = Inr (new_pipeline_state example_env example_job [example_candidate ''c1''],
                 orchestrator_after (create_pipeline example_env example_orchestrator example_job
                   [example_candidate ''c1'']))"
    and "state (orchestrator_after (create_pipeline example_env example_orchestrator example_job
               [example_candidate ''c1'']))
     = Some (new_pipeline_state example_env example_job [example_candidate ''c1''])"
    by blast+
  then obtain self' where
      "create_pipeline example_env example_orchestrator example_job [example_candidate ''c1'']
          = Inr (new_pipeline_state example_env example_job [example_candidate ''c1''], self')"
      "state (orchestrator_after (create_pipeline example_env example_orchestrator example_job
               [example_candidate ''c1'']))
     = Some (new_pipeline_state example_env example_job [example_candidate ''c1''])"
    by blast
  then show ?thesis by (simp add: returned_def)
qed

theorem create_pipeline_accepts_empty_input_counterexample:
  "map_option current_stage
       (returned (create_pipeline example_env example_orchestrator
                    (example_job\<lparr> jd_job_id := [] \<rparr>) [])) = Some INITIALIZED
   \<and> map_option candidates
       (returned (create_pipeline example_env example_orchestrator
                    (example_job\<lparr> jd_job_id := [] \<rparr>) [])) = Some []
   \<and> map_option job_id
       (returned (create_pipeline example_env example_orchestrator
                    (example_job\<lparr> jd_job_id := [] \<rparr>) [])) = Some []
   \<and> state (orchestrator_after (create_pipeline example_env example_orchestrator
                    (example_job\<lparr> jd_job_id := [] \<rparr>) []))
     = returned (create_pipeline example_env example_orchestrator
                    (example_job\<lparr> jd_job_id := [] \<rparr>) [])"
  by (simp add: create_pipeline_def log_event_def Let_def returned_def orchestrator_after_def
        append_event_def new_pipeline_state_def example_orchestrator_def OrchestratorAgent_def)

text \<open>
  C1. The claim asks that no run reaches Completed unless the bias auditor was invoked and
  its recorded outcome has status Success and an audit result with \<open>audit_passed\<close>. The
  run of the example pipeline (the example job with the one candidate \<open>c1\<close>) is evaluated
  here: it returns at stage Completed, the agent responses it recorded are those of the JD
  analyzer and of the resume parser, and none of them is a passing outcome of the bias
  auditor. The bias-audit stage of the orchestrator writes a fixed passing record instead
  of running the auditor.
\<close>

theorem completed_without_auditor:
  "map_option current_stage (returned_state (run_pipeline example_env (example_pipeline [''c1''])))
     = Some COMPLETED
   \<and> map_option (map agent_type \<circ> agent_responses)
       (returned_state (run_pipeline example_env (example_pipeline [''c1''])))
     = Some [''JDAnalyzerAgent'', ''ResumeParserAgent'']
   \<and> map_option (filter passing_audit_outcome \<circ> agent_responses)
       (returned_state (run_pipeline example_env (example_pipeline [''c1''])))
     = Some []"
proof -
  let ?st = "new_pipeline_state example_env example_job (map example_candidate [''c1''])"
  have s: "state (example_pipeline [''c1'']) = Some ?st"
    unfolding example_pipeline_def by (rule created_pipeline_state)
  have i: "current_stage ?st = INITIALIZED" by (rule new_pipeline_state_fields)
  have q: "all_callbacks_return (example_pipeline [''c1''])"
    by (rule example_callbacks_return)
  have ok: "\<And>d. status (run (render example_env) (jd_analyzer (example_pipeline [''c1''])) d
                     (job_description ?st)) = SUCCESS"
    by (simp add: example_pipeline_def created_pipeline_state example_orchestrator_def
          OrchestratorAgent_def)
  from run_pipeline_completes[OF s i q ok] obtain st1 self1 where
      r: "run_pipeline example_env (example_pipeline [''c1'']) = Some (Inr (st1, self1))"
      and c: "current_stage st1 = COMPLETED"
      and a: "map agent_type (agent_responses st1) =
               map agent_type (agent_responses ?st)
                 @ [self_agent_type (jd_analyzer (example_pipeline [''c1'']))]
                 @ replicate (length (candidates ?st))
                     (self_agent_type (resume_parser (example_pipeline [''c1''])))"
    by blast
  have a': "map agent_type (agent_responses st1) = [''JDAnalyzerAgent'', ''ResumeParserAgent'']"
    unfolding a
    by (simp add: example_pipeline_def created_pipeline_state new_pipeline_state_fields
          example_orchestrator_def OrchestratorAgent_def JDAnalyzerAgent_def
          ResumeParserAgent_def)
  have "\<forall>r \<in> set (agent_responses st1). agent_type r \<noteq> ''BiasAuditorAgent''"
  proof
    fix r assume "r \<in> set (agent_responses st1)"
    then have "agent_type r \<in> set (map agent_type (agent_responses st1))" by simp
    then show "agent_type r \<noteq> ''BiasAuditorAgent''" unfolding a' by auto
  qed
  then have "filter passing_audit_outcome (agent_responses st1) = []"
    by (auto simp: filter_empty_conv passing_audit_outcome_def)
  with r c a' show ?thesis by (simp add: returned_state_def)
qed

text \<open>
  C2 (as the code has it). Called before \<^verbatim>\<open>create_pipeline\<close>, \<^verbatim>\<open>run_pipeline\<close> raises
  ValueError with the text of its guard. Called on a created pipeline whose registered
  event callbacks all return, it always returns, and the state it returns is at a terminal
  stage (Completed, Failed or AwaitingHumanReview). When the stage handler raises at a
  non-terminal stage (a callback for the stage or agent-response event raised in it) and
  the callbacks for the stage-error event return, the loop ends there: the stage becomes
  Failed and the text \<^verbatim>\<open>Error in <stage>: <exception text>\<close> is appended to the errors of
  the state the handler left. An exception raised by a callback for the pipeline-started
  event, which is logged outside the \<^verbatim>\<open>try\<close>, leaves \<^verbatim>\<open>run_pipeline\<close>.
\<close>

theorem run_pipeline_terminal_unless_uninitialized:
  "(state self = None \<longrightarrow>
      run_pipeline E self = Some (Inl ''Pipeline not initialized. Call create_pipeline first.''))
   \<and> (\<forall>st. state self = Some st \<and> all_callbacks_return self \<longrightarrow>
         (\<exists>st' self'. run_pipeline E self = Some (Inr (st', self'))
            \<and> current_stage st' \<in> set terminal_stages))
   \<and> (\<forall>st e self1 st1.
         state self = Some st \<and> current_stage st \<notin> set terminal_stages
           \<and> execute_current_stage E self = Inl (e, self1) \<and> state self1 = Some st1
           \<and> callbacks_return self1 ''stage_error'' \<longrightarrow>
         (\<exists>self2. pipeline_loop E self = Some (Inr self2)
            \<and> state self2 = Some (st1\<lparr> state_errors := state_errors st1
                 @ [''Error in '' @ stage_value (render E) (current_stage st1) @ '': '' @ e],
               current_stage := STAGE_FAILED \<rparr>)))
   \<and> (\<forall>st e.
         state self = Some st
           \<and> dispatch (event_handlers self ''pipeline_started'')
                (make_event self ''pipeline_started'' [(''job_id'', PStr (job_id st))]) = Some e \<longrightarrow>
         run_pipeline E self = Some (Inl e))"
proof (intro conjI allI impI)
  assume "state self = None"
  then show "run_pipeline E self
      = Some (Inl ''Pipeline not initialized. Call create_pipeline first.'')"
    by (simp add: run_pipeline_def)
next
  fix st assume "state self = Some st \<and> all_callbacks_return self"
  then have s: "state self = Some st" and q: "all_callbacks_return self" by simp_all
  from run_pipeline_returns[OF s q, of E]
  show "\<exists>st' self'. run_pipeline E self = Some (Inr (st', self'))
            \<and> current_stage st' \<in> set terminal_stages"
    by blast
next
  fix st e self1 st1
  assume "state self = Some st \<and> current_stage st \<notin> set terminal_stages
           \<and> execute_current_stage E self = Inl (e, self1) \<and> state self1 = Some st1
           \<and> callbacks_return self1 ''stage_error''"
  then show "\<exists>self2. pipeline_loop E self = Some (Inr self2)
            \<and> state self2 = Some (st1\<lparr> state_errors := state_errors st1
                 @ [''Error in '' @ stage_value (render E) (current_stage st1) @ '': '' @ e],
               current_stage := STAGE_FAILED \<rparr>)"
    using loop_handler_raises[of self st E e self1 st1] by blast
next
  fix st e
  assume "state self = Some st
           \<and> dispatch (event_handlers self ''pipeline_started'')
                (make_event self ''pipeline_started'' [(''job_id'', PStr (job_id st))]) = Some e"
  then show "run_pipeline E self = Some (Inl e)"
    using run_pipeline_started_raises[of self st e E] by blast
qed

theorem run_pipeline_terminal_unless_uninitialized_witness:
  "run_pipeline example_env example_orchestrator
     = Some (Inl ''Pipeline not initialized. Call create_pipeline first.'')
   \<and> (\<exists>st' self'. run_pipeline example_env (example_pipeline [''c1'']) = Some (Inr (st', self'))
         \<and> current_stage st' \<in> set terminal_stages)
   \<and> (\<exists>self2 st2.
         pipeline_loop example_env
           (on_event (example_pipeline [''c1'']) ''stage_started'' raising_callback)
           = Some (Inr self2)
         \<and> state self2 = Some st2
         \<and> current_stage st2 = STAGE_FAILED
         \<and> state_errors st2 = [''Error in initialized: boom''])
   \<and> run_pipeline example_env
         (on_event (example_pipeline [''c1'']) ''pipeline_started'' raising_callback)
       = Some (Inl ''boom'')"
proof -
  let ?st = "new_pipeline_state example_env example_job (map example_candidate [''c1''])"
  let ?p = "example_pipeline [''c1'']"
  let ?a = "on_event ?p ''stage_started'' raising_callback"
  let ?b = "on_event ?p ''pipeline_started'' raising_callback"
  let ?a1 = "append_event ?a ''stage_started''
               [(''stage'', PStr (stage_value (render example_env) (current_stage ?st)))]"
  have n: "state example_orchestrator = None"
    by (simp add: example_orchestrator_def OrchestratorAgent_def)
  have s: "state ?p = Some ?st"
    unfolding example_pipeline_def by (rule created_pipeline_state)
  have q: "all_callbacks_return ?p" by (rule example_callbacks_return)
  have sa: "state ?a = Some ?st" and sb: "state ?b = Some ?st" using s by simp_all
  have i: "current_stage ?st \<notin> set terminal_stages"
    by (simp add: new_pipeline_state_fields terminal_stages_def)
  have x: "execute_current_stage example_env ?a = Inl (''boom'', ?a1)"
    by (rule stage_started_raises[OF sa]) (simp add: raising_callback_def)
  have sa1: "state ?a1 = Some ?st" using sa by simp
  have qa1: "callbacks_return ?a1 ''stage_error''"
    by (simp add: callbacks_return_def)
  have d: "dispatch (event_handlers ?b ''pipeline_started'')
             (make_event ?b ''pipeline_started'' [(''job_id'', PStr (job_id ?st))]) = Some ''boom''"
    by (simp add: raising_callback_def)
  have e: "state_errors ?st = []"
      "stage_value (render example_env) (current_stage ?st) = ''initialized''"
    by (simp_all add: new_pipeline_state_def example_env_def example_render_def stage_name_def)
  from run_pipeline_terminal_unless_uninitialized[of example_orchestrator example_env] n
  have 1: "run_pipeline example_env example_orchestrator
     = Some (Inl ''Pipeline not initialized. Call create_pipeline first.'')"
    by blast
  from run_pipeline_terminal_unless_uninitialized[of ?p example_env] s q
  have 2: "\<exists>st' self'. run_pipeline example_env ?p = Some (Inr (st', self'))
         \<and> current_stage st' \<in> set terminal_stages"
    by blast
  from run_pipeline_terminal_unless_uninitialized[of ?a example_env] sa i x sa1 qa1
  obtain self2 where "pipeline_loop example_env ?a = Some (Inr self2)"
     "state self2 = Some (?st\<lparr> state_errors := state_errors ?st
                 @ [''Error in '' @ stage_value (render example_env) (current_stage ?st)
                      @ '': '' @ ''boom''],
               current_stage := STAGE_FAILED \<rparr>)"
    by blast
  with e have 3: "\<exists>self2 st2. pipeline_loop example_env ?a = Some (Inr self2)
         \<and> state self2 = Some st2
         \<and> current_stage st2 = STAGE_FAILED
         \<and> state_errors st2 = [''Error in initialized: boom'']"
    by simp
  from run_pipeline_terminal_unless_uninitialized[of ?b example_env] sb d
  have 4: "run_pipeline example_env ?b = Some (Inl ''boom'')"
    by blast
  from 1 2 3 4 show ?thesis by blast
qed

theorem run_pipeline_raises_before_create_counterexample:
  "run_pipeline example_env example_orchestrator
     = Some (Inl ''Pipeline not initialized. Call create_pipeline first.'')"
  by (simp add: run_pipeline_def example_orchestrator_def OrchestratorAgent_def)



text \<open>
  C6. The bias auditor always returns a result. Each finding it produces has severity high,
  medium or low, and the fairness score is max(0, 1 - penalty), the penalty being 0.3 for
  each high, 0.15 for each medium and 0.05 for each low finding. \<open>audit_passed\<close> holds
  exactly when the fairness score is at least 0.7 and there is no high finding; with no
  finding at all the score is 1.0 and the audit passes. The result's
  \<open>requires_human_review\<close> is true exactly when the audit did not pass or a high finding
  exists.
\<close>

theorem fairness_score_and_verdict:
  "\<exists>steps res conf expl.
      BiasAuditor_process R x = (steps, Inr (res, conf, expl))
    \<and> length (findings res)
        = count_severity ''high'' (findings res) + count_severity ''medium'' (findings res)
          + count_severity ''low'' (findings res)
    \<and> overall_fairness_score res
        = max 0 (1 - (0.3 * real (count_severity ''high'' (findings res))
                      + 0.15 * real (count_severity ''medium'' (findings res))
                      + 0.05 * real (count_severity ''low'' (findings res))))
    \<and> audit_passed res
        = (overall_fairness_score res \<ge> 0.7 \<and> count_severity ''high'' (findings res) = 0)
    \<and> (findings res = [] \<longrightarrow> overall_fairness_score res = 1.0 \<and> audit_passed res)
    \<and> result_requires_human_review res
        = (\<not> audit_passed res \<or> 0 < count_severity ''high'' (findings res))"
proof -
  from BiasAuditor_result[of R x] obtain steps res expl where
      p: "BiasAuditor_process R x = (steps, Inr (res, 0.9, expl))"
      and f: "findings res = audit_findings R x"
      and sc: "overall_fairness_score res
         = max 0 (1 - sum_list (map (\<lambda>f. severity_weight (severity f)) (audit_findings R x)))"
      and ap: "audit_passed res
         = (overall_fairness_score res \<ge> 0.7
            \<and> \<not> list_ex (\<lambda>f. severity f = ''high'') (audit_findings R x))"
      and hr: "result_requires_human_review res
         = (\<not> audit_passed res \<or> list_ex (\<lambda>f. severity f = ''high'') (audit_findings R x))"
    by blast
  note cnt = penalty_by_counts[OF audit_findings_severities[of R x]]
  have 1: "length (findings res)
        = count_severity ''high'' (findings res) + count_severity ''medium'' (findings res)
          + count_severity ''low'' (findings res)"
    using cnt by (simp add: f)
  have 2: "overall_fairness_score res
        = max 0 (1 - (0.3 * real (count_severity ''high'' (findings res))
                      + 0.15 * real (count_severity ''medium'' (findings res))
                      + 0.05 * real (count_severity ''low'' (findings res))))"
    using cnt by (simp add: f sc)
  have 3: "audit_passed res
        = (overall_fairness_score res \<ge> 0.7 \<and> count_severity ''high'' (findings res) = 0)"
    by (simp add: ap f list_ex_count_severity)
  have 4: "findings res = [] \<longrightarrow> overall_fairness_score res = 1.0 \<and> audit_passed res"
  proof
    assume e: "findings res = []"
    then have "overall_fairness_score res = 1" using 2 by (simp add: count_severity_def)
    with 3 e show "overall_fairness_score res = 1.0 \<and> audit_passed res"
      by (simp add: count_severity_def)
  qed
  have 5: "result_requires_human_review res
        = (\<not> audit_passed res \<or> 0 < count_severity ''high'' (findings res))"
    by (simp add: hr f list_ex_count_severity)
  show ?thesis
    by (intro exI[of _ steps] exI[of _ res] exI[of _ "0.9"] exI[of _ expl] conjI p 1 2 3 4 5)
qed

theorem fairness_score_and_verdict_witness:
  "\<exists>steps res conf expl.
      BiasAuditor_process example_render (example_audit_input [] []) = (steps, Inr (res, conf, expl))
    \<and> findings res = []
    \<and> overall_fairness_score res = 1
    \<and> audit_passed res"
proof -
  from fairness_score_and_verdict[of example_render "example_audit_input [] []"]
  obtain steps res conf expl where
      p: "BiasAuditor_process example_render (example_audit_input [] []) = (steps, Inr (res, conf, expl))"
      and i: "findings res = [] \<longrightarrow> overall_fairness_score res = 1.0 \<and> audit_passed res"
    by blast
  have "findings (fst (projr (snd (BiasAuditor_process example_render (example_audit_input [] []))))) = []"
    by (simp add: BiasAuditor_process_def Let_def example_audit_input_def
          audit_jd_language_def audit_gate_consistency_def audit_score_distribution_def
          audit_explanation_quality_def borderline_cases_def new_pipeline_state_def)
  with p have "findings res = []" by simp
  with p i show ?thesis by auto
qed

text \<open>
  C7. Whenever strictly more than 30% of the decision gates recorded in the state given to
  the bias auditor are flagged borderline (the text of their bias flags contains
  \<^verbatim>\<open>borderline\<close>), the auditor produces a finding of category threshold_calibration and
  severity high, and the audit does not pass, whatever the fairness score. Four
  borderline gates out of ten are such a case.
\<close>

theorem borderline_rate_forces_failure:
  assumes "3 * length (decision_gates (pipeline_state x))
             < 10 * length (borderline_cases R (decision_gates (pipeline_state x)))"
  shows "\<exists>steps res conf expl.
      BiasAuditor_process R x = (steps, Inr (res, conf, expl))
    \<and> (\<exists>f \<in> set (findings res). category f = ''threshold_calibration'' \<and> severity f = ''high'')
    \<and> \<not> audit_passed res
    \<and> result_requires_human_review res"
proof -
  from assms have "real (length (decision_gates (pipeline_state x))) * 0.3
                     < real (length (borderline_cases R (decision_gates (pipeline_state x))))"
    by simp
  then have g: "\<exists>f \<in> set (fst (audit_gate_consistency R x)).
                   category f = ''threshold_calibration'' \<and> severity f = ''high''"
    by (simp add: audit_gate_consistency_def Let_def)
  then have h: "\<exists>f \<in> set (audit_findings R x).
                   category f = ''threshold_calibration'' \<and> severity f = ''high''"
    by (auto simp: audit_findings_def)
  then have ex: "list_ex (\<lambda>f. severity f = ''high'') (audit_findings R x)"
    by (auto simp: list_ex_iff)
  from BiasAuditor_result[of R x] obtain steps res expl where
      p: "BiasAuditor_process R x = (steps, Inr (res, 0.9, expl))"
      and f: "findings res = audit_findings R x"
      and ap: "audit_passed res
         = (overall_fairness_score res \<ge> 0.7
            \<and> \<not> list_ex (\<lambda>f. severity f = ''high'') (audit_findings R x))"
      and hr: "result_requires_human_review res
         = (\<not> audit_passed res \<or> list_ex (\<lambda>f. severity f = ''high'') (audit_findings R x))"
    by blast
  from ap ex have np: "\<not> audit_passed res" by simp
  with hr have rv: "result_requires_human_review res" by simp
  from h have hf: "\<exists>f \<in> set (findings res).
                   category f = ''threshold_calibration'' \<and> severity f = ''high''"
    by (simp add: f)
  show ?thesis
    by (intro exI[of _ steps] exI[of _ res] exI[of _ "0.9"] exI[of _ expl] conjI p hf np rv)
qed

theorem borderline_rate_forces_failure_witness:
  "length (decision_gates (pipeline_state (example_audit_input
       (replicate 4 (example_gate [''borderline_score'']) @ replicate 6 (example_gate [])) []))) = 10
   \<and> length (borderline_cases example_render (decision_gates (pipeline_state (example_audit_input
       (replicate 4 (example_gate [''borderline_score'']) @ replicate 6 (example_gate [])) [])))) = 4
   \<and> (\<exists>steps res conf expl.
        BiasAuditor_process example_render (example_audit_input
          (replicate 4 (example_gate [''borderline_score'']) @ replicate 6 (example_gate [])) [])
          = (steps, Inr (res, conf, expl))
      \<and> map category (findings res) = [''threshold_calibration'']
      \<and> map severity (findings res) = [''high'']
      \<and> \<not> audit_passed res)"
proof -
  let ?x = "example_audit_input
       (replicate 4 (example_gate [''borderline_score'']) @ replicate 6 (example_gate [])) []"
  have n: "length (decision_gates (pipeline_state ?x)) = 10"
    by (simp add: example_audit_input_def)
  have yes: "str_in ''borderline'' (repr_list [''borderline_score''])"
    by (simp add: repr_list_def)
  have no: "\<not> str_in ''borderline'' (repr_list [])"
    by (simp add: repr_list_def)
  have b: "borderline_cases example_render (decision_gates (pipeline_state ?x))
             = replicate 4 (example_gate [''borderline_score''])"
    using yes no
    by (simp add: example_audit_input_def borderline_cases_def example_render_def
          example_gate_def)
  then have k: "length (borderline_cases example_render (decision_gates (pipeline_state ?x))) = 4"
    by simp
  have h: "3 * length (decision_gates (pipeline_state ?x))
             < 10 * length (borderline_cases example_render (decision_gates (pipeline_state ?x)))"
    unfolding n k by simp
  from borderline_rate_forces_failure[OF h] obtain steps res conf expl where
      p: "BiasAuditor_process example_render ?x = (steps, Inr (res, conf, expl))"
      and np: "\<not> audit_passed res"
    by blast
  have "map category (findings (fst (projr (snd (BiasAuditor_process example_render ?x)))))
          = [''threshold_calibration'']
      \<and> map severity (findings (fst (projr (snd (BiasAuditor_process example_render ?x)))))
          = [''high'']"
    using b n k
    by (simp add: BiasAuditor_process_def Let_def audit_jd_language_def
          audit_gate_consistency_def audit_score_distribution_def
          audit_explanation_quality_def example_audit_input_def new_pipeline_state_def)
  with p np n k show ?thesis by auto
qed

end
